theory Spec2Isabelle
  imports Complex_Main
begin

section \<open>Convergence strategy: exit conditions (src/strategy/convergence.ts)\<close>

text \<open>
  JavaScript numbers that carry prices and dollar amounts are modelled as reals.
  A timestamp is the string the source holds; \<open>new Date(s)\<close> is a builtin of the
  language, so the parser is a parameter \<open>parseDate\<close> of the model: it yields the epoch
  milliseconds, or \<open>None\<close> for an Invalid Date (whose comparisons are all false).
\<close>

datatype side = YES | NO

datatype exit_reason = Target | Resolution | StopLoss

record PricePoint =
  pp_timestamp :: string
  yes_price :: real
  no_price :: real

record Market =
  market_id :: string
  resolution_date :: "string option"
  outcome :: "side option"

record StrategyConfig =
  exitPriceTarget :: real
  holdToResolution :: bool

record RiskConfig =
  stopLossPercent :: "real option"

record ExitSignal =
  sig_marketId :: string
  sig_exitPrice :: real
  sig_timestamp :: string
  sig_reason :: exit_reason

text \<open>\<open>currentDate >= resolutionDate\<close> on two Date objects.\<close>

definition date_ge :: "int option \<Rightarrow> int option \<Rightarrow> bool" where
  "date_ge a b = (case a of None \<Rightarrow> False
                 | Some x \<Rightarrow> (case b of None \<Rightarrow> False | Some y \<Rightarrow> x \<ge> y))"

definition checkExitConditions ::
  "(string \<Rightarrow> int option) \<Rightarrow> StrategyConfig \<Rightarrow> RiskConfig \<Rightarrow>
   side \<Rightarrow> real \<Rightarrow> PricePoint \<Rightarrow> Market \<Rightarrow> ExitSignal option" where
  "checkExitConditions parseDate config riskConfig sd entryPrice currentPrice market =
    (let price = (if sd = YES then yes_price currentPrice else no_price currentPrice) in
     if \<not> holdToResolution config \<and> price \<ge> exitPriceTarget config then
       Some \<lparr>sig_marketId = market_id market, sig_exitPrice = price,
             sig_timestamp = pp_timestamp currentPrice, sig_reason = Target\<rparr>
     else if (case stopLossPercent riskConfig of
                None \<Rightarrow> False
              | Some pct \<Rightarrow> price \<le> entryPrice * (1 - pct / 100)) then
       Some \<lparr>sig_marketId = market_id market, sig_exitPrice = price,
             sig_timestamp = pp_timestamp currentPrice, sig_reason = StopLoss\<rparr>
     else
       (case outcome market of
          None \<Rightarrow> None
        | Some out \<Rightarrow>
           (case resolution_date market of
              None \<Rightarrow> None
            | Some rd \<Rightarrow>
               if rd \<noteq> [] \<and> date_ge (parseDate (pp_timestamp currentPrice)) (parseDate rd) then
                 Some \<lparr>sig_marketId = market_id market,
                       sig_exitPrice = (if out = sd then 1 else 0),
                       sig_timestamp = pp_timestamp currentPrice, sig_reason = Resolution\<rparr>
               else None)))"

text \<open>The three triggers as the source tests them.\<close>

definition held_price :: "side \<Rightarrow> PricePoint \<Rightarrow> real" where
  "held_price sd pp = (if sd = YES then yes_price pp else no_price pp)"

definition target_hit :: "StrategyConfig \<Rightarrow> side \<Rightarrow> PricePoint \<Rightarrow> bool" where
  "target_hit config sd pp = (held_price sd pp \<ge> exitPriceTarget config)"

definition stop_loss_breached :: "RiskConfig \<Rightarrow> side \<Rightarrow> real \<Rightarrow> PricePoint \<Rightarrow> bool" where
  "stop_loss_breached riskConfig sd entryPrice pp =
    (case stopLossPercent riskConfig of
       None \<Rightarrow> False
     | Some pct \<Rightarrow> held_price sd pp \<le> entryPrice * (1 - pct / 100))"

definition resolved_at :: "(string \<Rightarrow> int option) \<Rightarrow> PricePoint \<Rightarrow> Market \<Rightarrow> bool" where
  "resolved_at parseDate pp market =
    (case resolution_date market of
       None \<Rightarrow> False
     | Some rd \<Rightarrow> rd \<noteq> [] \<and> outcome market \<noteq> None \<and>
                 date_ge (parseDate (pp_timestamp pp)) (parseDate rd))"

text \<open>A date parser for the examples: it knows the two timestamps ''100'' and ''200''.\<close>

fun digits_val :: "string \<Rightarrow> int option" where
  "digits_val s = (if s = ''100'' then Some 100 else if s = ''200'' then Some 200 else None)"

section \<open>Account state synchronizer (StateManager, trading/state.ts)\<close>

text \<open>
  A promise either resolves or rejects with a message. What one call observes of the
  outside world is a record of replies, one per upstream request; a reply is a thrown
  error, a missing value (null, undefined, a falsy field) or a value. Numeric strings of
  the venue are taken as the numbers they denote (a string that parses to NaN is outside
  the model), and an ISO time string as its epoch milliseconds. The clock is an argument:
  every reading of it within one call of \<open>getState\<close> has the same value.
\<close>

type_synonym 'a promise = "string + 'a"

datatype 'a reply = Throws | Null | Value 'a

datatype sync_source = Api | Cache

record Position =
  pos_marketId :: string
  pos_tokenId :: string
  pos_side :: string
  pos_size :: real
  avgEntryPrice :: real
  currentValue :: real
  currentPrice :: real
  unrealizedPnl :: real
  entryTime :: int
  question :: "string option"

record OpenOrder =
  oo_market :: string
  original_size :: real
  size_matched :: real
  oo_price :: real

record AccountState =
  balance :: real
  allowance :: real
  positions :: "Position list"
  openOrders :: "OpenOrder list"
  lastSyncTime :: int
  syncSource :: sync_source

text \<open>
  An entry of the Data API's positions array. The condition id and the asset identify
  the position and are always present; every other field is optional as in JSON. The
  outcome is the label of the market's outcome as the venue spells it (Yes, No, or
  another label such as Up); the interface \<open>Position\<close> declares its side as YES or
  NO, but the value is the upper-cased label behind an unchecked cast, so it is a string
  here.
\<close>

record raw_position =
  conditionId :: string
  asset :: string
  rp_outcome :: "string option"
  rp_size :: "real option"
  avgPrice :: "real option"
  rp_currentValue :: "real option"
  curPrice :: "real option"
  cashPnl :: "real option"
  title :: "string option"

datatype positions_reply =
    PositionsThrows
  | PositionsNotOk
  | PositionsJson "raw_position list option"

record upstream =
  getBalanceAllowance :: "real reply"
  eth_call_balanceOf :: "nat reply"
  getOpenOrders :: "OpenOrder list reply"
  data_api_positions :: positions_reply

record StateManager =
  staleThresholdMs :: int
  cachedState :: "AccountState option"
  lastError :: "string option"

text \<open>The constructor: \<open>config.staleThresholdMs || 30_000\<close>, no cache, no error.\<close>

definition newStateManager :: "int \<Rightarrow> StateManager" where
  "newStateManager threshold =
     \<lparr>staleThresholdMs = (if threshold = 0 then 30000 else threshold),
      cachedState = None, lastError = None\<rparr>"

text \<open>\<open>x || d\<close> on an optional number: a missing or zero \<open>x\<close> gives \<open>d\<close>.\<close>

definition num_or :: "real option \<Rightarrow> real \<Rightarrow> real" where
  "num_or x d = (case x of None \<Rightarrow> d | Some v \<Rightarrow> if v \<noteq> 0 then v else d)"

definition fetchOnChainUSDC :: "upstream \<Rightarrow> real promise" where
  "fetchOnChainUSDC up =
     (case eth_call_balanceOf up of
        Throws \<Rightarrow> Inr 0
      | Null \<Rightarrow> Inr 0
      | Value balanceWei \<Rightarrow> Inr (real balanceWei / 1000000))"

definition fetchBalance :: "upstream \<Rightarrow> (real \<times> real) promise" where
  "fetchBalance up =
     (let clobBalance = (case getBalanceAllowance up of
                           Value b \<Rightarrow> b / 1000000
                         | Throws \<Rightarrow> 0
                         | Null \<Rightarrow> 0) in
      case fetchOnChainUSDC up of
        Inl e \<Rightarrow> Inl e
      | Inr onChainBalance \<Rightarrow>
          (let effectiveBalance = max clobBalance onChainBalance
           in Inr (effectiveBalance, effectiveBalance)))"

definition fetchOpenOrders :: "upstream \<Rightarrow> OpenOrder list promise" where
  "fetchOpenOrders up =
     (case getOpenOrders up of
        Throws \<Rightarrow> Inr []
      | Null \<Rightarrow> Inr []
      | Value result \<Rightarrow> Inr result)"

text \<open>\<open>s.toUpperCase()\<close>, for labels of ASCII characters.\<close>

definition upper_char :: "char \<Rightarrow> char" where
  "upper_char c =
     (case map_of (zip ''abcdefghijklmnopqrstuvwxyz'' ''ABCDEFGHIJKLMNOPQRSTUVWXYZ'') c of
        None \<Rightarrow> c
      | Some u \<Rightarrow> u)"

definition toUpperCase :: "string \<Rightarrow> string" where
  "toUpperCase s = map upper_char s"

definition position_of_raw :: "int \<Rightarrow> raw_position \<Rightarrow> Position" where
  "position_of_raw now pos =
     \<lparr>pos_marketId = conditionId pos,
      pos_tokenId = asset pos,
      pos_side = toUpperCase (case rp_outcome pos of
                                None \<Rightarrow> ''YES''
                              | Some out \<Rightarrow> if out \<noteq> [] then out else ''YES''),
      pos_size = num_or (rp_size pos) 0,
      avgEntryPrice = num_or (avgPrice pos) 0,
      currentValue =
        num_or (rp_currentValue pos)
          (case rp_size pos of
             None \<Rightarrow> 0
           | Some sz \<Rightarrow> (case curPrice pos of None \<Rightarrow> 0 | Some cp \<Rightarrow> sz * cp)),
      currentPrice = num_or (curPrice pos) 0,
      unrealizedPnl = num_or (cashPnl pos) 0,
      entryTime = now,
      question = (case title pos of None \<Rightarrow> None
                  | Some t \<Rightarrow> if t \<noteq> [] then Some t else None)\<rparr>"

definition fetchPositionsFromDataAPI :: "int \<Rightarrow> upstream \<Rightarrow> Position list promise" where
  "fetchPositionsFromDataAPI now up =
     (case data_api_positions up of
        PositionsThrows \<Rightarrow> Inr []
      | PositionsNotOk \<Rightarrow> Inr []
      | PositionsJson None \<Rightarrow> Inr []
      | PositionsJson (Some data) \<Rightarrow> Inr (map (position_of_raw now) data))"

text \<open>
  \<open>getState\<close>: the cache is served when it is fresh and no refresh is forced; otherwise the
  three fetches run (\<open>fetchState\<close>, the try block), and a rejection of any of them takes the
  catch branch \<open>getState_failed\<close> (the stale cache, or an error when there is none).
\<close>

definition cache_fresh :: "StateManager \<Rightarrow> int \<Rightarrow> bool" where
  "cache_fresh sm now =
     (case cachedState sm of
        None \<Rightarrow> False
      | Some c \<Rightarrow> now - lastSyncTime c < staleThresholdMs sm)"

definition getState_failed :: "StateManager \<Rightarrow> string \<Rightarrow> AccountState promise \<times> StateManager" where
  "getState_failed sm e =
     (let sm' = sm\<lparr>lastError := Some e\<rparr> in
      case cachedState sm' of
        Some c \<Rightarrow> (Inr (c\<lparr>syncSource := Cache\<rparr>), sm')
      | None \<Rightarrow> (Inl (''Failed to fetch account state: '' @ e), sm'))"

definition fetchState ::
  "StateManager \<Rightarrow> upstream \<Rightarrow> int \<Rightarrow> AccountState promise \<times> StateManager" where
  "fetchState sm up now =
     (case fetchBalance up of
        Inl e \<Rightarrow> getState_failed sm e
      | Inr balanceResult \<Rightarrow>
         (case fetchOpenOrders up of
            Inl e \<Rightarrow> getState_failed sm e
          | Inr openOrdersResult \<Rightarrow>
             (case fetchPositionsFromDataAPI now up of
                Inl e \<Rightarrow> getState_failed sm e
              | Inr ps \<Rightarrow>
                 (let state = \<lparr>balance = fst balanceResult,
                               allowance = snd balanceResult,
                               positions = ps,
                               openOrders = openOrdersResult,
                               lastSyncTime = now,
                               syncSource = Api\<rparr>
                  in (Inr state, sm\<lparr>cachedState := Some state, lastError := None\<rparr>)))))"

definition getState ::
  "StateManager \<Rightarrow> upstream \<Rightarrow> int \<Rightarrow> bool \<Rightarrow> AccountState promise \<times> StateManager" where
  "getState sm up now forceRefresh =
     (if \<not> forceRefresh \<and> cache_fresh sm now then
        (case cachedState sm of
           Some c \<Rightarrow> (Inr (c\<lparr>syncSource := Cache\<rparr>), sm)
         | None \<Rightarrow> fetchState sm up now)
      else fetchState sm up now)"

text \<open>Whether a call of \<open>getState\<close> contacts the upstream services.\<close>

definition getState_fetches :: "StateManager \<Rightarrow> int \<Rightarrow> bool \<Rightarrow> bool" where
  "getState_fetches sm now forceRefresh = (\<not> (\<not> forceRefresh \<and> cache_fresh sm now))"

definition order_exposure :: "OpenOrder list \<Rightarrow> real" where
  "order_exposure os =
     foldl (\<lambda>sum order. sum + (original_size order - size_matched order) * oo_price order) 0 os"

definition hasOpenOrderForMarket ::
  "StateManager \<Rightarrow> upstream \<Rightarrow> int \<Rightarrow> string \<Rightarrow> bool promise \<times> StateManager" where
  "hasOpenOrderForMarket sm up now marketId =
     (case getState sm up now True of
        (Inl e, sm') \<Rightarrow> (Inl e, sm')
      | (Inr state, sm') \<Rightarrow> (Inr (list_ex (\<lambda>ord. oo_market ord = marketId) (openOrders state)), sm'))"

definition hasPositionInMarket ::
  "StateManager \<Rightarrow> upstream \<Rightarrow> int \<Rightarrow> string \<Rightarrow> bool promise \<times> StateManager" where
  "hasPositionInMarket sm up now marketId =
     (case getState sm up now True of
        (Inl e, sm') \<Rightarrow> (Inl e, sm')
      | (Inr state, sm') \<Rightarrow>
          (Inr (list_ex (\<lambda>p. pos_marketId p = marketId) (positions state)), sm'))"

definition getAvailableBalance ::
  "StateManager \<Rightarrow> upstream \<Rightarrow> int \<Rightarrow> real promise \<times> StateManager" where
  "getAvailableBalance sm up now =
     (case getState sm up now False of
        (Inl e, sm') \<Rightarrow> (Inl e, sm')
      | (Inr state, sm') \<Rightarrow>
          (Inr (max 0 (balance state - order_exposure (openOrders state))), sm'))"

definition getTotalExposure ::
  "StateManager \<Rightarrow> upstream \<Rightarrow> int \<Rightarrow> real promise \<times> StateManager" where
  "getTotalExposure sm up now =
     (case getState sm up now False of
        (Inl e, sm') \<Rightarrow> (Inl e, sm')
      | (Inr state, sm') \<Rightarrow>
          (Inr (foldl (\<lambda>sum pos. sum + currentValue pos) 0 (positions state)
                + order_exposure (openOrders state)), sm'))"

section \<open>Ledger store (trading/schema.ts) and reconciliation (StateManager.reconcile)\<close>

text \<open>
  The two tables the trading code writes. A table is the list of its rows in insertion
  order; \<open>id\<close> is the AUTOINCREMENT primary key. Columns that none of the modelled
  statements reads or writes (the timestamps kept by the database, the market profile of
  a trade) are left out.
\<close>

datatype trade_status = Pending | Open | Closed | TradeCancelled | Unknown

datatype order_status = Created | Submitted | Live | Filled | OrderCancelled | Failed

datatype order_side = BUY | SELL

record LiveTrade =
  lt_id :: nat
  lt_market_id :: string
  lt_token_id :: "string option"
  lt_side :: side
  lt_entry_price :: "real option"
  lt_size :: real
  lt_size_usd :: "real option"
  lt_status :: trade_status
  lt_entry_time :: "int option"
  lt_order_id :: "string option"
  lt_notes :: "string option"

record OrderTracking =
  ot_id :: nat
  ot_order_id :: "string option"
  ot_market_id :: string
  ot_token_id :: string
  ot_side :: order_side
  ot_price :: real
  ot_size :: real
  ot_order_type :: string
  ot_status :: order_status
  polymarket_status :: "string option"
  idempotency_key :: string
  error_message :: "string option"

definition next_id :: "nat list \<Rightarrow> nat" where
  "next_id ids = Suc (foldr max ids 0)"

text \<open>Decimal rendering of a row id inside a template string.\<close>

fun show_nat :: "nat \<Rightarrow> string" where
  "show_nat n =
     (if n < 10 then [''0123456789'' ! n]
      else show_nat (n div 10) @ [''0123456789'' ! (n mod 10)])"

declare show_nat.simps [simp del]

text \<open>
  \<open>UPDATE live_trades SET status = 'unknown', notes = ... WHERE id = ?\<close> and
  \<open>INSERT INTO live_trades (market_id, side, entry_price, size, status, entry_time, notes)\<close>.
  The column \<open>side\<close> carries \<open>CHECK (side IN ('YES', 'NO'))\<close>: a row of the table
  always has one of the two sides, and the insert of any other string throws.
\<close>

definition set_unknown :: "nat \<Rightarrow> LiveTrade list \<Rightarrow> LiveTrade list" where
  "set_unknown i db =
     map (\<lambda>t. if lt_id t = i
              then t\<lparr>lt_status := Unknown,
                     lt_notes := Some ''Reconciliation: position not found on Polymarket''\<rparr>
              else t) db"

definition side_of_label :: "string \<Rightarrow> side option" where
  "side_of_label l = (if l = ''YES'' then Some YES else if l = ''NO'' then Some NO else None)"

definition check_failed :: string where
  "check_failed = ''CHECK constraint failed: live_trades''"

definition insert_found :: "Position \<Rightarrow> LiveTrade list \<Rightarrow> string + LiveTrade list" where
  "insert_found position db =
     (case side_of_label (pos_side position) of
        None \<Rightarrow> Inl check_failed
      | Some sd \<Rightarrow>
          Inr (db @ [\<lparr>lt_id = next_id (map lt_id db),
                      lt_market_id = pos_marketId position,
                      lt_token_id = None,
                      lt_side = sd,
                      lt_entry_price = Some (avgEntryPrice position),
                      lt_size = pos_size position,
                      lt_size_usd = None,
                      lt_status = Open,
                      lt_entry_time = Some (entryTime position),
                      lt_order_id = None,
                      lt_notes = Some ''Reconciliation: found on Polymarket''\<rparr>]))"

definition has_position :: "AccountState \<Rightarrow> string \<Rightarrow> bool" where
  "has_position state m = list_ex (\<lambda>p. pos_marketId p = m) (positions state)"

definition has_order :: "AccountState \<Rightarrow> string \<Rightarrow> bool" where
  "has_order state m = list_ex (\<lambda>ord. oo_market ord = m) (openOrders state)"

definition missing_msg :: "LiveTrade \<Rightarrow> string" where
  "missing_msg localTrade =
     ''Local trade '' @ show_nat (lt_id localTrade) @
     '' shows 'open' but no position/order on Polymarket''"

definition untracked_msg :: "Position \<Rightarrow> string" where
  "untracked_msg position =
     ''Position in '' @ pos_marketId position @
     '' exists on Polymarket but not in local database''"

text \<open>The first loop of \<open>reconcile\<close>, over the local trades that were selected.\<close>

fun check_local_trades ::
  "AccountState \<Rightarrow> LiveTrade list \<Rightarrow> string list \<times> LiveTrade list \<Rightarrow>
   string list \<times> LiveTrade list" where
  "check_local_trades state [] acc = acc"
| "check_local_trades state (localTrade # rest) (discrepancies, db) =
     (let hasPosition = has_position state (lt_market_id localTrade);
          hasOrder = has_order state (lt_market_id localTrade)
      in if \<not> hasPosition \<and> \<not> hasOrder \<and> lt_status localTrade = Open
         then check_local_trades state rest
                (discrepancies @ [missing_msg localTrade], set_unknown (lt_id localTrade) db)
         else check_local_trades state rest (discrepancies, db))"

text \<open>
  The second loop, over the positions of the venue. The insert is outside any try
  block: when it throws, the loop and \<open>reconcile\<close> end there with the error, the
  discrepancies collected so far are lost, and the ledger keeps what was written before.
\<close>

fun check_positions ::
  "LiveTrade list \<Rightarrow> Position list \<Rightarrow> string list \<times> LiveTrade list \<Rightarrow>
   (string + string list) \<times> LiveTrade list" where
  "check_positions localTrades [] (discrepancies, db) = (Inr discrepancies, db)"
| "check_positions localTrades (position # rest) (discrepancies, db) =
     (case find (\<lambda>t. lt_market_id t = pos_marketId position) localTrades of
        None \<Rightarrow>
          (case insert_found position db of
             Inl ex \<Rightarrow> (Inl ex, db)
           | Inr db' \<Rightarrow>
               check_positions localTrades rest (discrepancies @ [untracked_msg position], db'))
      | Some localRecord \<Rightarrow> check_positions localTrades rest (discrepancies, db))"

record ReconcileResult =
  synced :: bool
  discrepancies :: "string list"

definition select_open_pending :: "LiveTrade list \<Rightarrow> LiveTrade list" where
  "select_open_pending db = filter (\<lambda>t. lt_status t = Open \<or> lt_status t = Pending) db"

definition reconcile ::
  "StateManager \<Rightarrow> upstream \<Rightarrow> int \<Rightarrow> LiveTrade list \<Rightarrow>
   ReconcileResult promise \<times> StateManager \<times> LiveTrade list" where
  "reconcile sm up now db =
     (case getState sm up now True of
        (Inl e, sm') \<Rightarrow> (Inl e, sm', db)
      | (Inr state, sm') \<Rightarrow>
          (let localTrades = select_open_pending db;
               afterLocal = check_local_trades state localTrades ([], db)
           in case check_positions localTrades (positions state) afterLocal of
                (Inl ex, db') \<Rightarrow> (Inl ex, sm', db')
              | (Inr ds, db') \<Rightarrow>
                  (Inr \<lparr>synced = (ds = []), discrepancies = ds\<rparr>, sm', db')))"

text \<open>
  Vocabulary for the properties of \<open>reconcile\<close>: the test of the first loop, the update it
  performs on a row, the test of the second loop, a position whose side the ledger
  accepts, and what a row inserted for a position holds.
\<close>

definition flagged :: "AccountState \<Rightarrow> LiveTrade \<Rightarrow> bool" where
  "flagged state t = (\<not> has_position state (lt_market_id t) \<and> \<not> has_order state (lt_market_id t)
      \<and> lt_status t = Open)"

definition unknown_of :: "LiveTrade \<Rightarrow> LiveTrade" where
  "unknown_of t = t\<lparr>lt_status := Unknown,
                     lt_notes := Some ''Reconciliation: position not found on Polymarket''\<rparr>"

definition unmatched :: "LiveTrade list \<Rightarrow> Position \<Rightarrow> bool" where
  "unmatched lts p = (find (\<lambda>t. lt_market_id t = pos_marketId p) lts = None)"

definition binary_side :: "Position \<Rightarrow> bool" where
  "binary_side p = (pos_side p = ''YES'' \<or> pos_side p = ''NO'')"

definition found_row :: "Position \<Rightarrow> LiveTrade \<Rightarrow> bool" where
  "found_row p t = (lt_market_id t = pos_marketId p \<and> lt_status t = Open \<and>
     lt_notes t = Some ''Reconciliation: found on Polymarket'' \<and>
     side_of_label (pos_side p) = Some (lt_side t) \<and>
     lt_entry_price t = Some (avgEntryPrice p) \<and> lt_size t = pos_size p \<and>
     lt_entry_time t = Some (entryTime p))"

definition marked_ids :: "AccountState \<Rightarrow> LiveTrade list \<Rightarrow> nat set" where
  "marked_ids st db = lt_id ` set (filter (flagged st) (select_open_pending db))"

definition mark :: "AccountState \<Rightarrow> LiveTrade list \<Rightarrow> LiveTrade \<Rightarrow> LiveTrade" where
  "mark st db t = (if lt_id t \<in> marked_ids st db then unknown_of t else t)"

section \<open>Order executor (OrderExecutor, trading/executor.ts)\<close>

text \<open>
  The executor works on the ledger, on its in-flight set and, through the state manager,
  on the cache of the synchronizer: \<open>sys\<close> holds these together with the list of the
  effects performed so far, in order, which lets a property speak about what happened
  before what. What the runtime and the outside world supply to one call is an \<open>env\<close>:
  the clock (one reading for the call, and the two later readings from which a dry run
  forms its placeholder order ids), the random bytes, the replies of the upstream services
  (taken as fixed for the duration of the call), the reply of the venue to a submission
  and to a cancel-all (\<open>Some\<close> message when it throws), and the two number formatters of
  the language (\<open>String(n)\<close> and \<open>n.toFixed(2)\<close>).
\<close>

record OrderRequest =
  rq_marketId :: string
  rq_tokenId :: string
  rq_side :: side
  rq_sizeUsd :: real
  rq_price :: "real option"
  rq_idempotencyKey :: "string option"

record OrderResult =
  success :: bool
  orderId :: "string option"
  error :: "string option"
  orderStatus :: "string option"
  res_idempotencyKey :: string

record ExecutorConfig =
  maxExposureUsd :: real
  positionSizeUsd :: real
  dryRun :: bool

record venue_result =
  vr_orderID :: "string option"
  vr_orderId :: "string option"
  vr_status :: "string option"
  vr_errorMsg :: "string option"

datatype venue_reply = VenueThrows string | VenueNull | VenueResult venue_result

record env =
  clock :: int
  now_dry_update :: int
  now_dry_return :: int
  random_hex :: string
  world :: upstream
  createAndPostMarketOrder :: venue_reply
  cancelAll :: "string option"
  numToString :: "real \<Rightarrow> string"
  toFixed2 :: "real \<Rightarrow> string"

datatype event =
    StateFetch
  | OrderInsert string
  | OrderUpdate string order_status
  | TradeInsert string
  | PendingAdd string
  | PendingDelete string
  | Submit string real order_side
  | CancelAllCall

record sys =
  stateManager :: StateManager
  order_tracking :: "OrderTracking list"
  live_trades :: "LiveTrade list"
  pendingOrders :: "string set"
  effects :: "event list"

definition emit :: "event list \<Rightarrow> sys \<Rightarrow> sys" where
  "emit evs s = s\<lparr>effects := effects s @ evs\<rparr>"

text \<open>
  \<open>a || b\<close> on optional strings, the empty string being falsy: with an optional and with
  a literal right-hand side.
\<close>

definition str_or :: "string option \<Rightarrow> string option \<Rightarrow> string option" where
  "str_or a b = (case a of None \<Rightarrow> b | Some v \<Rightarrow> if v \<noteq> [] then Some v else b)"

definition str_default :: "string option \<Rightarrow> string \<Rightarrow> string" where
  "str_default a d = (case a of None \<Rightarrow> d | Some v \<Rightarrow> if v \<noteq> [] then v else d)"

definition show_int :: "int \<Rightarrow> string" where
  "show_int i = (if i < 0 then ''-'' @ show_nat (nat (- i)) else show_nat (nat i))"

definition side_str :: "side \<Rightarrow> string" where
  "side_str sd = (case sd of YES \<Rightarrow> ''YES'' | NO \<Rightarrow> ''NO'')"

definition generateIdempotencyKey :: "env \<Rightarrow> OrderRequest \<Rightarrow> string" where
  "generateIdempotencyKey e request =
     (let timestamp = clock e div 60000;
          data = rq_marketId request @ '':'' @ side_str (rq_side request) @ '':'' @
                 numToString e (rq_sizeUsd request) @ '':'' @ show_int timestamp;
          hash = random_hex e
      in ''order_'' @ data @ ''_'' @ hash)"

text \<open>\<open>request.idempotencyKey || this.generateIdempotencyKey(derived)\<close>.\<close>

definition key_or_generate :: "env \<Rightarrow> OrderRequest \<Rightarrow> OrderRequest \<Rightarrow> string" where
  "key_or_generate e request derived =
     (case rq_idempotencyKey request of
        None \<Rightarrow> generateIdempotencyKey e derived
      | Some k \<Rightarrow> if k \<noteq> [] then k else generateIdempotencyKey e derived)"

text \<open>
  The statements on \<open>order_tracking\<close>. Both \<open>idempotency_key\<close> and \<open>order_id\<close> are UNIQUE
  columns: the insert is only reached after the lookup found no row with the key, and an
  update that would store an order id held by another row throws.
\<close>

definition find_order :: "string \<Rightarrow> OrderTracking list \<Rightarrow> OrderTracking option" where
  "find_order k tbl = find (\<lambda>r. idempotency_key r = k) tbl"

definition insert_created ::
  "OrderRequest \<Rightarrow> order_side \<Rightarrow> string \<Rightarrow> OrderTracking list \<Rightarrow> OrderTracking list" where
  "insert_created request dir k tbl =
     tbl @ [\<lparr>ot_id = next_id (map ot_id tbl),
             ot_order_id = None,
             ot_market_id = rq_marketId request,
             ot_token_id = rq_tokenId request,
             ot_side = dir,
             ot_price = num_or (rq_price request) 0,
             ot_size = rq_sizeUsd request,
             ot_order_type = ''MARKET'',
             ot_status = Created,
             polymarket_status = None,
             idempotency_key = k,
             error_message = None\<rparr>]"

definition update_order ::
  "string \<Rightarrow> (OrderTracking \<Rightarrow> OrderTracking) \<Rightarrow> OrderTracking list \<Rightarrow> OrderTracking list" where
  "update_order k f tbl = map (\<lambda>r. if idempotency_key r = k then f r else r) tbl"

definition order_id_taken :: "string \<Rightarrow> string \<Rightarrow> OrderTracking list \<Rightarrow> bool" where
  "order_id_taken k oid tbl =
     list_ex (\<lambda>r. ot_order_id r = Some oid \<and> idempotency_key r \<noteq> k) tbl"

definition unique_failed :: string where
  "unique_failed = ''UNIQUE constraint failed: order_tracking.order_id''"

definition set_submitted :: "string \<Rightarrow> sys \<Rightarrow> sys" where
  "set_submitted k s =
     emit [OrderUpdate k Submitted]
       (s\<lparr>order_tracking := update_order k (\<lambda>r. r\<lparr>ot_status := Submitted\<rparr>) (order_tracking s)\<rparr>)"

definition set_filled :: "string \<Rightarrow> string \<Rightarrow> string option \<Rightarrow> sys \<Rightarrow> string + sys" where
  "set_filled k oid pstatus s =
     (if order_id_taken k oid (order_tracking s) then Inl unique_failed
      else Inr (emit [OrderUpdate k Filled]
             (s\<lparr>order_tracking :=
                  update_order k
                    (\<lambda>r. r\<lparr>ot_status := Filled, ot_order_id := Some oid,
                            polymarket_status := pstatus\<rparr>)
                    (order_tracking s)\<rparr>)))"

definition set_failed :: "string \<Rightarrow> string \<Rightarrow> sys \<Rightarrow> sys" where
  "set_failed k errorMsg s =
     emit [OrderUpdate k Failed]
       (s\<lparr>order_tracking :=
            update_order k (\<lambda>r. r\<lparr>ot_status := Failed, error_message := Some errorMsg\<rparr>)
              (order_tracking s)\<rparr>)"

definition insert_live_trade :: "env \<Rightarrow> OrderRequest \<Rightarrow> string \<Rightarrow> sys \<Rightarrow> sys" where
  "insert_live_trade e request oid s =
     emit [TradeInsert (rq_marketId request)]
       (s\<lparr>live_trades := live_trades s @
            [\<lparr>lt_id = next_id (map lt_id (live_trades s)),
              lt_market_id = rq_marketId request,
              lt_token_id = Some (rq_tokenId request),
              lt_side = rq_side request,
              lt_entry_price = None,
              lt_size = rq_sizeUsd request,
              lt_size_usd = Some (rq_sizeUsd request),
              lt_status = Open,
              lt_entry_time = Some (clock e),
              lt_order_id = Some oid,
              lt_notes = None\<rparr>]\<rparr>)"

text \<open>The results the executor returns.\<close>

definition stored_result :: "string \<Rightarrow> OrderTracking \<Rightarrow> OrderResult" where
  "stored_result k existingOrder =
     \<lparr>success = (ot_status existingOrder = Filled \<or> ot_status existingOrder = Live),
      orderId = ot_order_id existingOrder,
      error = error_message existingOrder,
      orderStatus = None,
      res_idempotencyKey = k\<rparr>"

definition failure :: "string \<Rightarrow> string \<Rightarrow> OrderResult" where
  "failure k msg =
     \<lparr>success = False, orderId = None, error = Some msg, orderStatus = None,
      res_idempotencyKey = k\<rparr>"

definition succeeded :: "string \<Rightarrow> string \<Rightarrow> string option \<Rightarrow> OrderResult" where
  "succeeded k oid st =
     \<lparr>success = True, orderId = Some oid, error = None, orderStatus = st,
      res_idempotencyKey = k\<rparr>"

text \<open>
  A method of the state manager called by the executor: the cache of the state manager is
  updated, and a \<open>StateFetch\<close> effect is recorded when the underlying \<open>getState\<close>
  (forced or not, as the method asks) goes to the upstream services.
\<close>

definition via_stateManager ::
  "env \<Rightarrow> bool \<Rightarrow> (StateManager \<Rightarrow> upstream \<Rightarrow> int \<Rightarrow> 'a promise \<times> StateManager) \<Rightarrow>
   sys \<Rightarrow> 'a promise \<times> sys" where
  "via_stateManager e forced method s =
     (let r = method (stateManager s) (world e) (clock e)
      in (fst r,
          emit (if getState_fetches (stateManager s) (clock e) forced then [StateFetch] else [])
            (s\<lparr>stateManager := snd r\<rparr>)))"

text \<open>
  The try block of \<open>placeBuyOrder\<close> with its catch and finally clauses. An exception
  inside the try block (a rejected submission, a violated UNIQUE constraint) is an \<open>Inl\<close>
  that the catch clause turns into a \<open>failed\<close> record and a failure result.
\<close>

definition buy_try :: "ExecutorConfig \<Rightarrow> env \<Rightarrow> OrderRequest \<Rightarrow> string \<Rightarrow> sys \<Rightarrow>
    (string + OrderResult) \<times> sys" where
  "buy_try cfg e request k s =
     (if dryRun cfg then
        (case set_filled k (''dry_'' @ show_int (now_dry_update e)) (Some ''DRY_RUN'') s of
           Inl ex \<Rightarrow> (Inl ex, s)
         | Inr s1 \<Rightarrow> (Inr (succeeded k (''dry_'' @ show_int (now_dry_return e)) None), s1))
      else
        (let s1 = set_submitted k s;
             s2 = emit [Submit (rq_tokenId request) (rq_sizeUsd request) BUY] s1
         in case createAndPostMarketOrder e of
              VenueThrows ex \<Rightarrow> (Inl ex, s2)
            | reply \<Rightarrow>
               (let result = (case reply of VenueResult r \<Rightarrow> r
                              | _ \<Rightarrow> \<lparr>vr_orderID = None, vr_orderId = None,
                                      vr_status = None, vr_errorMsg = None\<rparr>);
                    orderId = str_or (vr_orderID result) (vr_orderId result);
                    orderStatus = str_default (vr_status result) ''unknown''
                in case orderId of
                     Some oid \<Rightarrow>
                       (case set_filled k oid (Some orderStatus) s2 of
                          Inl ex \<Rightarrow> (Inl ex, s2)
                        | Inr s3 \<Rightarrow>
                            (Inr (succeeded k oid (Some orderStatus)),
                             insert_live_trade e request oid s3))
                   | None \<Rightarrow>
                       (let errorMsg = str_default (vr_errorMsg result) ''No order ID returned''
                        in (Inr (failure k errorMsg), set_failed k errorMsg s2)))))"

definition buy_try_catch_finally ::
  "ExecutorConfig \<Rightarrow> env \<Rightarrow> OrderRequest \<Rightarrow> string \<Rightarrow> sys \<Rightarrow> OrderResult \<times> sys" where
  "buy_try_catch_finally cfg e request k s =
     (let (res, s1) =
            (case buy_try cfg e request k s of
               (Inr r, s') \<Rightarrow> (r, s')
             | (Inl errorMsg, s') \<Rightarrow> (failure k errorMsg, set_failed k errorMsg s'))
      in (res, emit [PendingDelete (rq_marketId request)]
                 (s1\<lparr>pendingOrders := pendingOrders s1 - {rq_marketId request}\<rparr>)))"

definition placeBuyOrder ::
  "ExecutorConfig \<Rightarrow> env \<Rightarrow> OrderRequest \<Rightarrow> sys \<Rightarrow> OrderResult promise \<times> sys" where
  "placeBuyOrder cfg e request s =
     (let idempotencyKey = key_or_generate e request request in
      case find_order idempotencyKey (order_tracking s) of
        Some existingOrder \<Rightarrow> (Inr (stored_result idempotencyKey existingOrder), s)
      | None \<Rightarrow>
        if rq_marketId request \<in> pendingOrders s then
          (Inr (failure idempotencyKey ''Order already in flight for this market''), s)
        else
          (let (hasPositionP, s1) =
                 via_stateManager e True
                   (\<lambda>sm up t. hasPositionInMarket sm up t (rq_marketId request)) s;
               (hasOrderP, s2) =
                 via_stateManager e True
                   (\<lambda>sm up t. hasOpenOrderForMarket sm up t (rq_marketId request)) s1
           in case hasPositionP of
                Inl ex \<Rightarrow> (Inl ex, s2)
              | Inr hasPosition \<Rightarrow>
               (case hasOrderP of
                  Inl ex \<Rightarrow> (Inl ex, s2)
                | Inr hasOrder \<Rightarrow>
                  if hasPosition then
                    (Inr (failure idempotencyKey ''Already have position in this market''), s2)
                  else if hasOrder then
                    (Inr (failure idempotencyKey ''Already have open order in this market''), s2)
                  else
                   (case via_stateManager e False getTotalExposure s2 of
                      (Inl ex, s3) \<Rightarrow> (Inl ex, s3)
                    | (Inr currentExposure, s3) \<Rightarrow>
                      if currentExposure + rq_sizeUsd request > maxExposureUsd cfg then
                        (Inr (failure idempotencyKey
                               (''Would exceed max exposure ($'' @
                                numToString e (maxExposureUsd cfg) @ '')'')), s3)
                      else
                       (case via_stateManager e False getAvailableBalance s3 of
                          (Inl ex, s4) \<Rightarrow> (Inl ex, s4)
                        | (Inr availableBalance, s4) \<Rightarrow>
                          if availableBalance < rq_sizeUsd request then
                            (Inr (failure idempotencyKey
                                   (''Insufficient balance: $'' @ toFixed2 e availableBalance @
                                    '' < $'' @ numToString e (rq_sizeUsd request))), s4)
                          else
                           (let s5 = emit [OrderInsert idempotencyKey]
                                       (s4\<lparr>order_tracking :=
                                            insert_created request BUY idempotencyKey
                                              (order_tracking s4)\<rparr>);
                                s6 = emit [PendingAdd (rq_marketId request)]
                                       (s5\<lparr>pendingOrders :=
                                            insert (rq_marketId request) (pendingOrders s5)\<rparr>);
                                (res, s7) = buy_try_catch_finally cfg e request idempotencyKey s6
                            in (Inr res, s7)))))))"

text \<open>\<open>placeSellOrder\<close>: the same lookup and in-flight guard, no other check.\<close>

definition sell_try :: "ExecutorConfig \<Rightarrow> env \<Rightarrow> OrderRequest \<Rightarrow> string \<Rightarrow> sys \<Rightarrow>
    (string + OrderResult) \<times> sys" where
  "sell_try cfg e request k s =
     (if dryRun cfg then
        (case set_filled k (''dry_sell_'' @ show_int (now_dry_update e)) (Some ''DRY_RUN'') s of
           Inl ex \<Rightarrow> (Inl ex, s)
         | Inr s1 \<Rightarrow> (Inr (succeeded k (''dry_sell_'' @ show_int (now_dry_return e)) None), s1))
      else
        (let s1 = set_submitted k s;
             s2 = emit [Submit (rq_tokenId request) (rq_sizeUsd request) SELL] s1
         in case createAndPostMarketOrder e of
              VenueThrows ex \<Rightarrow> (Inl ex, s2)
            | reply \<Rightarrow>
               (let result = (case reply of VenueResult r \<Rightarrow> r
                              | _ \<Rightarrow> \<lparr>vr_orderID = None, vr_orderId = None,
                                      vr_status = None, vr_errorMsg = None\<rparr>);
                    orderId = str_or (vr_orderID result) (vr_orderId result);
                    orderStatus = str_default (vr_status result) ''unknown''
                in case orderId of
                     Some oid \<Rightarrow>
                       (case set_filled k oid (Some orderStatus) s2 of
                          Inl ex \<Rightarrow> (Inl ex, s2)
                        | Inr s3 \<Rightarrow> (Inr (succeeded k oid (Some orderStatus)), s3))
                   | None \<Rightarrow>
                       (let errorMsg = str_default (vr_errorMsg result) ''No order ID returned''
                        in (Inr (failure k errorMsg), set_failed k errorMsg s2)))))"

definition sell_try_catch_finally ::
  "ExecutorConfig \<Rightarrow> env \<Rightarrow> OrderRequest \<Rightarrow> string \<Rightarrow> sys \<Rightarrow> OrderResult \<times> sys" where
  "sell_try_catch_finally cfg e request k s =
     (let (res, s1) =
            (case sell_try cfg e request k s of
               (Inr r, s') \<Rightarrow> (r, s')
             | (Inl errorMsg, s') \<Rightarrow> (failure k errorMsg, set_failed k errorMsg s'))
      in (res, emit [PendingDelete (''sell_'' @ rq_marketId request)]
                 (s1\<lparr>pendingOrders := pendingOrders s1 - {''sell_'' @ rq_marketId request}\<rparr>)))"

definition placeSellOrder ::
  "ExecutorConfig \<Rightarrow> env \<Rightarrow> OrderRequest \<Rightarrow> sys \<Rightarrow> OrderResult promise \<times> sys" where
  "placeSellOrder cfg e request s =
     (let idempotencyKey = key_or_generate e request (request\<lparr>rq_side := NO\<rparr>) in
      case find_order idempotencyKey (order_tracking s) of
        Some existingOrder \<Rightarrow> (Inr (stored_result idempotencyKey existingOrder), s)
      | None \<Rightarrow>
        if ''sell_'' @ rq_marketId request \<in> pendingOrders s then
          (Inr (failure idempotencyKey ''Sell order already in flight for this market''), s)
        else
          (let s1 = emit [OrderInsert idempotencyKey]
                      (s\<lparr>order_tracking :=
                           insert_created request SELL idempotencyKey (order_tracking s)\<rparr>);
               s2 = emit [PendingAdd (''sell_'' @ rq_marketId request)]
                      (s1\<lparr>pendingOrders :=
                            insert (''sell_'' @ rq_marketId request) (pendingOrders s1)\<rparr>);
               (res, s3) = sell_try_catch_finally cfg e request idempotencyKey s2
           in (Inr res, s3)))"

text \<open>\<open>cancelAllOrders\<close>: the whole body is one try block.\<close>

record CancelResult =
  c_success :: bool
  c_cancelled :: nat
  c_error :: "string option"

definition cancelAllOrders :: "ExecutorConfig \<Rightarrow> env \<Rightarrow> sys \<Rightarrow> CancelResult \<times> sys" where
  "cancelAllOrders cfg e s =
     (if dryRun cfg then (\<lparr>c_success = True, c_cancelled = 0, c_error = None\<rparr>, s)
      else
        (let s1 = emit [CancelAllCall] s in
         case cancelAll e of
           Some ex \<Rightarrow> (\<lparr>c_success = False, c_cancelled = 0, c_error = Some ex\<rparr>, s1)
         | None \<Rightarrow>
            (case via_stateManager e True (\<lambda>sm up t. getState sm up t True) s1 of
               (Inl ex, s2) \<Rightarrow> (\<lparr>c_success = False, c_cancelled = 0, c_error = Some ex\<rparr>, s2)
             | (Inr state, s2) \<Rightarrow> (\<lparr>c_success = True, c_cancelled = 0, c_error = None\<rparr>, s2))))"

text \<open>
  Vocabulary for the properties of the executor: the exposure and the available balance
  that the state manager computes from an account state, the test for an effect that only
  reads the upstream services, and the test for a submission to the venue.
\<close>

definition total_exposure :: "AccountState \<Rightarrow> real" where
  "total_exposure st =
     foldl (\<lambda>sum pos. sum + currentValue pos) 0 (positions st) + order_exposure (openOrders st)"

definition available_balance :: "AccountState \<Rightarrow> real" where
  "available_balance st = max 0 (balance st - order_exposure (openOrders st))"

definition is_fetch :: "event \<Rightarrow> bool" where
  "is_fetch ev = (case ev of StateFetch \<Rightarrow> True | _ \<Rightarrow> False)"

definition is_submit :: "event \<Rightarrow> bool" where
  "is_submit ev = (case ev of Submit tok amt dir \<Rightarrow> True | _ \<Rightarrow> False)"

text \<open>The state that a completed try block of \<open>getState\<close> builds, written out.\<close>

definition fresh_state :: "upstream \<Rightarrow> int \<Rightarrow> AccountState" where
  "fresh_state up now =
     (let b = max (case getBalanceAllowance up of Value c \<Rightarrow> c / 1000000 | _ \<Rightarrow> 0)
                  (case eth_call_balanceOf up of Value n \<Rightarrow> real n / 1000000 | _ \<Rightarrow> 0)
      in \<lparr>balance = b, allowance = b,
          positions = (case data_api_positions up of
                         PositionsJson (Some data) \<Rightarrow> map (position_of_raw now) data
                       | _ \<Rightarrow> []),
          openOrders = (case getOpenOrders up of Value r \<Rightarrow> r | _ \<Rightarrow> []),
          lastSyncTime = now, syncSource = Api\<rparr>)"

text \<open>
  Vocabulary for the properties of the executor, continued: the state manager once its
  cache holds a state, the fetch that an unforced read adds when the cache is never fresh,
  the system after the state reads of the pre-flight checks, the system once the
  \<open>created\<close> record is written and the market is in flight, the update that marks a
  record filled, the effects that a call added, and a call that wrote nothing.
\<close>

definition with_cache :: "StateManager \<Rightarrow> AccountState \<Rightarrow> StateManager" where
  "with_cache sm st = sm\<lparr>cachedState := Some st, lastError := None\<rparr>"

definition refetch :: "StateManager \<Rightarrow> event list" where
  "refetch sm = (if 0 < staleThresholdMs sm then [] else [StateFetch])"

definition checked :: "env \<Rightarrow> event list \<Rightarrow> sys \<Rightarrow> sys" where
  "checked e evs s =
     s\<lparr>stateManager := with_cache (stateManager s) (fresh_state (world e) (clock e)),
       effects := effects s @ evs\<rparr>"

definition created_state :: "env \<Rightarrow> OrderRequest \<Rightarrow> string \<Rightarrow> sys \<Rightarrow> sys" where
  "created_state e request k s =
     (let s4 = checked e ([StateFetch, StateFetch] @ refetch (stateManager s) @ refetch (stateManager s)) s
      in s4\<lparr>order_tracking := insert_created request BUY k (order_tracking s4),
            pendingOrders := insert (rq_marketId request) (pendingOrders s4),
            effects := effects s4 @ [OrderInsert k, PendingAdd (rq_marketId request)]\<rparr>)"

definition filled_row :: "string \<Rightarrow> string \<Rightarrow> OrderTracking \<Rightarrow> OrderTracking" where
  "filled_row oid st r = r\<lparr>ot_status := Filled, ot_order_id := Some oid,
                            polymarket_status := Some st\<rparr>"

definition new_effects :: "sys \<Rightarrow> sys \<Rightarrow> event list" where
  "new_effects s s' = drop (length (effects s)) (effects s')"

definition no_write :: "sys \<Rightarrow> sys \<Rightarrow> bool" where
  "no_write s s' =
     (order_tracking s' = order_tracking s \<and> live_trades s' = live_trades s \<and>
      pendingOrders s' = pendingOrders s \<and>
      take (length (effects s)) (effects s') = effects s \<and>
      list_all is_fetch (new_effects s s'))"

text \<open>
  The end-to-end scenario: a buy of 10 dollars of YES in market m1, with 100 dollars of
  balance at the venue, a ceiling of 50 dollars and no exposure, in live mode, the venue
  accepting the order; the clock reads 1700000000000 and the random bytes are a parameter.
\<close>

definition scenario_cfg :: ExecutorConfig where
  "scenario_cfg = \<lparr>maxExposureUsd = 50, positionSizeUsd = 10, dryRun = False\<rparr>"

definition scenario_request :: OrderRequest where
  "scenario_request =
     \<lparr>rq_marketId = ''m1'', rq_tokenId = ''tok1'', rq_side = YES, rq_sizeUsd = 10,
      rq_price = None, rq_idempotencyKey = None\<rparr>"

definition scenario_world :: upstream where
  "scenario_world =
     \<lparr>getBalanceAllowance = Value 100000000, eth_call_balanceOf = Value 0,
      getOpenOrders = Value [], data_api_positions = PositionsJson (Some [])\<rparr>"

definition scenario_env :: "string \<Rightarrow> string \<Rightarrow> env" where
  "scenario_env rnd venue_id =
     \<lparr>clock = 1700000000000, now_dry_update = 1700000000001,
      now_dry_return = 1700000000002, random_hex = rnd, world = scenario_world,
      createAndPostMarketOrder =
        VenueResult \<lparr>vr_orderID = Some venue_id, vr_orderId = None,
                     vr_status = Some ''matched'', vr_errorMsg = None\<rparr>,
      cancelAll = None,
      numToString = (\<lambda>x. if x = 10 then ''10'' else if x = 50 then ''50''
                         else if x = 5 then ''5'' else ''?''),
      toFixed2 = (\<lambda>x. if x = 100 then ''100.00'' else if x = 5 then ''5.00'' else ''?'')\<rparr>"

definition scenario_sys :: sys where
  "scenario_sys =
     \<lparr>stateManager = newStateManager 30000, order_tracking = [], live_trades = [],
      pendingOrders = {}, effects = []\<rparr>"

section \<open>Properties\<close>

subsection \<open>Claim C6: exit conditions of the convergence strategy\<close>

text \<open>
  C6, as stated, says that at any price point at or after the resolution date of a market
  with a known outcome the signal has reason \<open>resolution\<close>, so that a held NO position
  in a market resolved YES exits at exactly 0.0. With a stop loss configured the stop-loss
  trigger is tested first and wins: the NO position exits with reason \<open>stop_loss\<close> at the
  observed price.
\<close>

theorem C6_resolution_counterexample:
  "checkExitConditions digits_val
     \<lparr>exitPriceTarget = 95/100, holdToResolution = True\<rparr>
     \<lparr>stopLossPercent = Some 10\<rparr>
     NO (8/10)
     \<lparr>pp_timestamp = ''200'', yes_price = 95/100, no_price = 5/100\<rparr>
     \<lparr>market_id = ''m1'', resolution_date = Some ''100'', outcome = Some YES\<rparr>
   = Some \<lparr>sig_marketId = ''m1'', sig_exitPrice = 5/100, sig_timestamp = ''200'',
           sig_reason = StopLoss\<rparr>"
  by (simp add: checkExitConditions_def date_ge_def)

text \<open>
  C6 (amended): the triggers are evaluated in the priority order target, stop-loss,
  resolution. A target hit gives reason \<open>target\<close> (at the observed price) when
  holdToResolution is false, and reason \<open>target\<close> is never given when it is true; a
  stop-loss breach gives \<open>stop_loss\<close> whenever the target trigger did not fire, so always
  when holdToResolution is true; and at a price point at or after the resolution date of a
  market with a known outcome, when neither the target nor the stop-loss trigger fires,
  the signal has reason \<open>resolution\<close> and exit price exactly 1 if the held side is the
  outcome and exactly 0 otherwise.
\<close>

theorem C6_exit_priority:
  assumes "r = checkExitConditions parseDate config riskConfig sd entryPrice pp market"
  shows "(\<not> holdToResolution config \<and> target_hit config sd pp \<longrightarrow>
            map_option sig_reason r = Some Target \<and>
            map_option sig_exitPrice r = Some (held_price sd pp))
       \<and> (map_option sig_reason r = Some Target \<longrightarrow> \<not> holdToResolution config)
       \<and> (holdToResolution config \<and> stop_loss_breached riskConfig sd entryPrice pp \<longrightarrow>
            map_option sig_reason r = Some StopLoss)
       \<and> (\<not> (\<not> holdToResolution config \<and> target_hit config sd pp) \<and>
            stop_loss_breached riskConfig sd entryPrice pp \<longrightarrow>
            map_option sig_reason r = Some StopLoss \<and>
            map_option sig_exitPrice r = Some (held_price sd pp))
       \<and> (\<not> (\<not> holdToResolution config \<and> target_hit config sd pp) \<and>
            \<not> stop_loss_breached riskConfig sd entryPrice pp \<and>
            resolved_at parseDate pp market \<longrightarrow>
            map_option sig_reason r = Some Resolution \<and>
            map_option sig_exitPrice r = Some (if outcome market = Some sd then 1 else 0))"
  unfolding assms
  by (auto simp: checkExitConditions_def target_hit_def stop_loss_breached_def
        resolved_at_def held_price_def Let_def split: option.splits)

theorem C6_exit_priority_witness:
  "map_option sig_reason (checkExitConditions digits_val
       \<lparr>exitPriceTarget = 95/100, holdToResolution = False\<rparr> \<lparr>stopLossPercent = Some 10\<rparr>
       YES (8/10) \<lparr>pp_timestamp = ''200'', yes_price = 96/100, no_price = 4/100\<rparr>
       \<lparr>market_id = ''m1'', resolution_date = Some ''100'', outcome = Some YES\<rparr>) = Some Target
   \<and> map_option sig_reason (checkExitConditions digits_val
       \<lparr>exitPriceTarget = 95/100, holdToResolution = True\<rparr> \<lparr>stopLossPercent = Some 10\<rparr>
       YES (8/10) \<lparr>pp_timestamp = ''100'', yes_price = 5/10, no_price = 5/10\<rparr>
       \<lparr>market_id = ''m1'', resolution_date = Some ''200'', outcome = None\<rparr>) = Some StopLoss
   \<and> map_option sig_exitPrice (checkExitConditions digits_val
       \<lparr>exitPriceTarget = 95/100, holdToResolution = True\<rparr> \<lparr>stopLossPercent = None\<rparr>
       NO (8/10) \<lparr>pp_timestamp = ''200'', yes_price = 95/100, no_price = 5/100\<rparr>
       \<lparr>market_id = ''m1'', resolution_date = Some ''100'', outcome = Some YES\<rparr>) = Some 0
   \<and> map_option sig_reason (checkExitConditions digits_val
       \<lparr>exitPriceTarget = 95/100, holdToResolution = True\<rparr> \<lparr>stopLossPercent = None\<rparr>
       NO (8/10) \<lparr>pp_timestamp = ''200'', yes_price = 95/100, no_price = 5/100\<rparr>
       \<lparr>market_id = ''m1'', resolution_date = Some ''100'', outcome = Some YES\<rparr>) = Some Resolution"
proof -
  let ?pd = digits_val
  have a: "map_option sig_reason (checkExitConditions ?pd
       \<lparr>exitPriceTarget = 95/100, holdToResolution = False\<rparr> \<lparr>stopLossPercent = Some 10\<rparr>
       YES (8/10) \<lparr>pp_timestamp = ''200'', yes_price = 96/100, no_price = 4/100\<rparr>
       \<lparr>market_id = ''m1'', resolution_date = Some ''100'', outcome = Some YES\<rparr>) = Some Target"
    using C6_exit_priority [OF refl, of
       "\<lparr>exitPriceTarget = 95/100, holdToResolution = False\<rparr>" YES
       "\<lparr>pp_timestamp = ''200'', yes_price = 96/100, no_price = 4/100\<rparr>"
       ?pd "\<lparr>stopLossPercent = Some 10\<rparr>" "8/10"
       "\<lparr>market_id = ''m1'', resolution_date = Some ''100'', outcome = Some YES\<rparr>"]
    by (simp add: target_hit_def held_price_def)
  have b: "map_option sig_reason (checkExitConditions ?pd
       \<lparr>exitPriceTarget = 95/100, holdToResolution = True\<rparr> \<lparr>stopLossPercent = Some 10\<rparr>
       YES (8/10) \<lparr>pp_timestamp = ''100'', yes_price = 5/10, no_price = 5/10\<rparr>
       \<lparr>market_id = ''m1'', resolution_date = Some ''200'', outcome = None\<rparr>) = Some StopLoss"
    using C6_exit_priority [OF refl, of
       "\<lparr>exitPriceTarget = 95/100, holdToResolution = True\<rparr>" YES
       "\<lparr>pp_timestamp = ''100'', yes_price = 5/10, no_price = 5/10\<rparr>"
       ?pd "\<lparr>stopLossPercent = Some 10\<rparr>" "8/10"
       "\<lparr>market_id = ''m1'', resolution_date = Some ''200'', outcome = None\<rparr>"]
    by (simp add: stop_loss_breached_def held_price_def)
  have c: "map_option sig_exitPrice (checkExitConditions ?pd
       \<lparr>exitPriceTarget = 95/100, holdToResolution = True\<rparr> \<lparr>stopLossPercent = None\<rparr>
       NO (8/10) \<lparr>pp_timestamp = ''200'', yes_price = 95/100, no_price = 5/100\<rparr>
       \<lparr>market_id = ''m1'', resolution_date = Some ''100'', outcome = Some YES\<rparr>) = Some 0
     \<and> map_option sig_reason (checkExitConditions ?pd
       \<lparr>exitPriceTarget = 95/100, holdToResolution = True\<rparr> \<lparr>stopLossPercent = None\<rparr>
       NO (8/10) \<lparr>pp_timestamp = ''200'', yes_price = 95/100, no_price = 5/100\<rparr>
       \<lparr>market_id = ''m1'', resolution_date = Some ''100'', outcome = Some YES\<rparr>) = Some Resolution"
    using C6_exit_priority [OF refl, of
       "\<lparr>exitPriceTarget = 95/100, holdToResolution = True\<rparr>" NO
       "\<lparr>pp_timestamp = ''200'', yes_price = 95/100, no_price = 5/100\<rparr>"
       ?pd "\<lparr>stopLossPercent = None\<rparr>" "8/10"
       "\<lparr>market_id = ''m1'', resolution_date = Some ''100'', outcome = Some YES\<rparr>"]
    by (simp add: stop_loss_breached_def resolved_at_def date_ge_def)
  from a b c show ?thesis by blast
qed

subsection \<open>The synchronizer never rejects\<close>

text \<open>
  Each of the three fetches catches every error of its upstream request, so the try block
  of \<open>getState\<close> always completes: the catch branch with its stale-cache fallback and its
  thrown error is never taken.
\<close>

lemma fetchOnChainUSDC_returns:
  "fetchOnChainUSDC up =
     Inr (case eth_call_balanceOf up of Value n \<Rightarrow> real n / 1000000 | _ \<Rightarrow> 0)"
  by (simp add: fetchOnChainUSDC_def split: reply.splits)

lemma fetchBalance_returns:
  "fetchBalance up =
     (let b = max (case getBalanceAllowance up of Value c \<Rightarrow> c / 1000000 | _ \<Rightarrow> 0)
                  (case eth_call_balanceOf up of Value n \<Rightarrow> real n / 1000000 | _ \<Rightarrow> 0)
      in Inr (b, b))"
  by (simp add: fetchBalance_def fetchOnChainUSDC_returns Let_def split: reply.splits)

lemma fetchOpenOrders_returns:
  "fetchOpenOrders up = Inr (case getOpenOrders up of Value r \<Rightarrow> r | _ \<Rightarrow> [])"
  by (simp add: fetchOpenOrders_def split: reply.splits)

lemma fetchPositions_returns:
  "fetchPositionsFromDataAPI now up =
     Inr (case data_api_positions up of
            PositionsJson (Some data) \<Rightarrow> map (position_of_raw now) data
          | _ \<Rightarrow> [])"
  by (simp add: fetchPositionsFromDataAPI_def split: positions_reply.splits option.splits)

lemma fetchState_returns:
  "fetchState sm up now =
     (Inr (fresh_state up now),
      sm\<lparr>cachedState := Some (fresh_state up now), lastError := None\<rparr>)"
  by (simp add: fetchState_def fetchBalance_returns fetchOpenOrders_returns
        fetchPositions_returns fresh_state_def Let_def)

lemma getState_forced:
  "getState sm up now True =
     (Inr (fresh_state up now),
      sm\<lparr>cachedState := Some (fresh_state up now), lastError := None\<rparr>)"
  by (simp add: getState_def fetchState_returns)

lemma getState_fetching:
  "getState_fetches sm now force \<Longrightarrow>
   getState sm up now force =
     (Inr (fresh_state up now),
      sm\<lparr>cachedState := Some (fresh_state up now), lastError := None\<rparr>)"
  by (auto simp: getState_def getState_fetches_def fetchState_returns)

lemma getState_cached:
  "\<not> getState_fetches sm now force \<Longrightarrow>
   \<exists>c. cachedState sm = Some c \<and> getState sm up now force = (Inr (c\<lparr>syncSource := Cache\<rparr>), sm)"
  by (auto simp: getState_def getState_fetches_def cache_fresh_def split: option.splits)

lemma getState_total: "\<exists>st sm'. getState sm up now force = (Inr st, sm')"
proof (cases "getState_fetches sm now force")
  case True
  then show ?thesis by (simp add: getState_fetching)
next
  case False
  from getState_cached [OF this, of up] show ?thesis by blast
qed

subsection \<open>Claim C5: balance resolution\<close>

text \<open>
  C5: when \<open>getState\<close> reads the upstream services, the balance it reports is the maximum
  of the venue-reported (CLOB) balance and the on-chain balance; with the venue at 0 and
  37.50 on chain, the reported balance is exactly 37.50.
\<close>

theorem C5_balance_is_max:
  assumes "getState_fetches sm now force"
    and "getBalanceAllowance up = Value clob"
    and "eth_call_balanceOf up = Value chain"
  shows "\<exists>st sm'. getState sm up now force = (Inr st, sm')
           \<and> balance st = max (clob / 1000000) (real chain / 1000000)
           \<and> fetchBalance up = Inr (balance st, balance st)"
  using assms by (simp add: getState_fetching fresh_state_def fetchBalance_returns Let_def)

theorem C5_balance_is_max_witness:
  "\<exists>st sm'. getState (newStateManager 30000)
       \<lparr>getBalanceAllowance = Value 0, eth_call_balanceOf = Value 37500000,
        getOpenOrders = Value [], data_api_positions = PositionsJson (Some [])\<rparr>
       1700000000000 False = (Inr st, sm')
     \<and> balance st = 37.5"
proof -
  let ?up = "\<lparr>getBalanceAllowance = Value 0, eth_call_balanceOf = Value 37500000,
        getOpenOrders = Value [], data_api_positions = PositionsJson (Some [])\<rparr>"
  have f: "getState_fetches (newStateManager 30000) 1700000000000 False"
    by (simp add: getState_fetches_def cache_fresh_def newStateManager_def)
  from C5_balance_is_max [OF f, of ?up 0 37500000]
  show ?thesis by auto
qed

subsection \<open>Claim C10: failed component fetches\<close>

text \<open>
  C10: whichever upstream requests fail inside a \<open>getState\<close> that reads the upstream
  services, the call does not throw and does not fall back to the stale cache: it returns a
  state tagged \<open>api\<close> with the current time as lastSyncTime, which also replaces the cache.
  A failed CLOB balance query counts as 0 (the balance is then the on-chain reading), a
  failed on-chain query counts as 0, a failed open-orders listing gives no open orders and
  a failed positions request gives no positions; with every request failing the state
  reports balance 0, no orders and no positions.
\<close>

theorem C10_failed_fetch_degrades:
  assumes "getState_fetches sm now force"
  shows "\<exists>st. getState sm up now force
              = (Inr st, sm\<lparr>cachedState := Some st, lastError := None\<rparr>)
     \<and> syncSource st = Api \<and> lastSyncTime st = now
     \<and> (getBalanceAllowance up = Throws \<longrightarrow>
          balance st = (case eth_call_balanceOf up of Value n \<Rightarrow> real n / 1000000 | _ \<Rightarrow> 0))
     \<and> (eth_call_balanceOf up = Throws \<longrightarrow>
          balance st = max (case getBalanceAllowance up of Value c \<Rightarrow> c / 1000000 | _ \<Rightarrow> 0) 0)
     \<and> (getOpenOrders up = Throws \<longrightarrow> openOrders st = [])
     \<and> (data_api_positions up = PositionsThrows \<or> data_api_positions up = PositionsNotOk
          \<longrightarrow> positions st = [])
     \<and> (getBalanceAllowance up = Throws \<and> eth_call_balanceOf up = Throws \<and>
        getOpenOrders up = Throws \<and> data_api_positions up = PositionsThrows
          \<longrightarrow> balance st = 0 \<and> positions st = [] \<and> openOrders st = [])"
  using assms
  by (auto simp: getState_fetching fresh_state_def Let_def max_def split: reply.splits)

theorem C10_failed_fetch_degrades_witness:
  "\<exists>st. fst (getState
        \<lparr>staleThresholdMs = 30000,
         cachedState = Some \<lparr>balance = 100, allowance = 100, positions = [], openOrders = [],
                             lastSyncTime = 1699999999000, syncSource = Api\<rparr>,
         lastError = None\<rparr>
        \<lparr>getBalanceAllowance = Throws, eth_call_balanceOf = Throws,
         getOpenOrders = Throws, data_api_positions = PositionsThrows\<rparr>
        1700000000000 True) = Inr st
     \<and> syncSource st = Api \<and> lastSyncTime st = 1700000000000
     \<and> balance st = 0 \<and> positions st = [] \<and> openOrders st = []"
proof -
  let ?sm = "\<lparr>staleThresholdMs = 30000,
         cachedState = Some \<lparr>balance = 100, allowance = 100, positions = [], openOrders = [],
                             lastSyncTime = 1699999999000, syncSource = Api\<rparr>,
         lastError = None\<rparr>"
  let ?up = "\<lparr>getBalanceAllowance = Throws, eth_call_balanceOf = Throws,
         getOpenOrders = Throws, data_api_positions = PositionsThrows\<rparr>"
  have f: "getState_fetches ?sm 1700000000000 True"
    by (simp add: getState_fetches_def)
  from C10_failed_fetch_degrades [OF f, of ?up]
  obtain st where "getState ?sm ?up 1700000000000 True
        = (Inr st, ?sm\<lparr>cachedState := Some st, lastError := None\<rparr>)"
    and "syncSource st = Api" and "lastSyncTime st = 1700000000000"
    and "balance st = 0 \<and> positions st = [] \<and> openOrders st = []"
    by auto
  then show ?thesis by auto
qed

subsection \<open>The two loops of reconcile\<close>

lemma set_unknown_alt: "set_unknown i db = map (\<lambda>t. if lt_id t = i then unknown_of t else t) db"
  by (simp add: set_unknown_def unknown_of_def)

lemma lt_id_unknown_of [simp]: "lt_id (unknown_of t) = lt_id t"
  by (simp add: unknown_of_def)

lemma unknown_of_idem [simp]: "unknown_of (unknown_of t) = unknown_of t"
  by (simp add: unknown_of_def)

lemma check_local_trades_fst:
  "fst (check_local_trades state lts (ds, db)) = ds @ map missing_msg (filter (flagged state) lts)"
  by (induction lts arbitrary: ds db) (auto simp: flagged_def Let_def)

lemma check_local_trades_snd:
  "snd (check_local_trades state lts (ds, db)) =
     map (\<lambda>t. if lt_id t \<in> lt_id ` set (filter (flagged state) lts) then unknown_of t else t) db"
proof (induction lts arbitrary: ds db)
  case Nil
  show ?case by simp
next
  case (Cons l lts)
  show ?case
  proof (cases "flagged state l")
    case True
    then have "snd (check_local_trades state (l # lts) (ds, db)) =
        snd (check_local_trades state lts (ds @ [missing_msg l], set_unknown (lt_id l) db))"
      by (simp add: flagged_def Let_def)
    also have "\<dots> = map (\<lambda>t. if lt_id t \<in> lt_id ` set (filter (flagged state) lts) then unknown_of t else t)
         (set_unknown (lt_id l) db)"
      by (rule Cons.IH)
    also have "\<dots> = map (\<lambda>t. if lt_id t \<in> lt_id ` set (filter (flagged state) (l # lts)) then unknown_of t else t) db"
      using True by (auto simp: set_unknown_alt)
    finally show ?thesis .
  next
    case False
    then have "snd (check_local_trades state (l # lts) (ds, db)) =
        snd (check_local_trades state lts (ds, db))"
      by (auto simp: flagged_def Let_def)
    also have "\<dots> = map (\<lambda>t. if lt_id t \<in> lt_id ` set (filter (flagged state) lts) then unknown_of t else t) db"
      by (rule Cons.IH)
    also have "\<dots> = map (\<lambda>t. if lt_id t \<in> lt_id ` set (filter (flagged state) (l # lts)) then unknown_of t else t) db"
      using False by simp
    finally show ?thesis .
  qed
qed

lemma next_id_greater: "x \<in> set xs \<Longrightarrow> x < next_id xs"
  by (induction xs) (auto simp: next_id_def)

lemma binary_side_label: "binary_side p = (side_of_label (pos_side p) \<noteq> None)"
  by (simp add: binary_side_def side_of_label_def)

lemma insert_found_binary:
  "binary_side p \<Longrightarrow>
   \<exists>row. insert_found p db = Inr (db @ [row]) \<and> found_row p row \<and>
         lt_id row = next_id (map lt_id db)"
  by (auto simp: binary_side_def insert_found_def side_of_label_def found_row_def)

lemma insert_found_other:
  "\<not> binary_side p \<Longrightarrow> insert_found p db = Inl check_failed"
  by (simp add: binary_side_def insert_found_def side_of_label_def)

text \<open>
  The second loop when every position it has to insert has a side the ledger accepts: it
  completes, reports one discrepancy for each unmatched position and appends one row for
  each, under fresh ids.
\<close>

lemma check_positions_binary:
  "\<forall>p \<in> set ps. unmatched lts p \<longrightarrow> binary_side p \<Longrightarrow>
   \<exists>new. check_positions lts ps (ds, db) =
           (Inr (ds @ map untracked_msg (filter (unmatched lts) ps)), db @ new) \<and>
     list_all2 found_row (filter (unmatched lts) ps) new \<and>
     (\<forall>t \<in> set new. lt_id t \<notin> lt_id ` set db)"
proof (induction ps arbitrary: ds db)
  case Nil
  show ?case by simp
next
  case (Cons p ps)
  from Cons.prems have rest: "\<forall>p \<in> set ps. unmatched lts p \<longrightarrow> binary_side p" by simp
  show ?case
  proof (cases "unmatched lts p")
    case True
    with Cons.prems have "binary_side p" by simp
    from insert_found_binary [OF this, of db]
    obtain row where row: "insert_found p db = Inr (db @ [row])" "found_row p row"
      "lt_id row = next_id (map lt_id db)" by blast
    have fresh: "lt_id row \<notin> lt_id ` set db"
    proof
      assume "lt_id row \<in> lt_id ` set db"
      then have "next_id (map lt_id db) \<in> set (map lt_id db)" using row(3) by simp
      then show False using next_id_greater by blast
    qed
    from Cons.IH [OF rest, of "ds @ [untracked_msg p]" "db @ [row]"]
    obtain new where n: "check_positions lts ps (ds @ [untracked_msg p], db @ [row])
         = (Inr ((ds @ [untracked_msg p]) @ map untracked_msg (filter (unmatched lts) ps)),
            (db @ [row]) @ new)"
      "list_all2 found_row (filter (unmatched lts) ps) new"
      "\<forall>t \<in> set new. lt_id t \<notin> lt_id ` set (db @ [row])" by blast
    have "check_positions lts (p # ps) (ds, db) =
         (Inr (ds @ map untracked_msg (filter (unmatched lts) (p # ps))), db @ (row # new))"
      using True n(1) row(1) by (simp add: unmatched_def)
    moreover have "list_all2 found_row (filter (unmatched lts) (p # ps)) (row # new)"
      using True row(2) n(2) by simp
    moreover have "\<forall>t \<in> set (row # new). lt_id t \<notin> lt_id ` set db"
      using fresh n(3) by auto
    ultimately show ?thesis by blast
  next
    case False
    then show ?thesis using Cons.IH [OF rest, of ds db] by (auto simp: unmatched_def)
  qed
qed

text \<open>
  The second loop in general: whether it completes or throws, it only appends rows, each
  under a fresh id and each the row of an unmatched position of the venue.
\<close>

lemma check_positions_appends:
  "\<exists>new. snd (check_positions lts ps (ds, db)) = db @ new \<and>
     (\<forall>t \<in> set new. lt_id t \<notin> lt_id ` set db \<and> (\<exists>p \<in> set ps. found_row p t))"
proof (induction ps arbitrary: ds db)
  case Nil
  show ?case by simp
next
  case (Cons p ps)
  show ?case
  proof (cases "unmatched lts p")
    case False
    then show ?thesis using Cons.IH [of ds db] by (auto simp: unmatched_def)
  next
    case True
    show ?thesis
    proof (cases "binary_side p")
      case False
      with True show ?thesis by (simp add: insert_found_other unmatched_def)
    next
      case b: True
      from insert_found_binary [OF b, of db]
      obtain row where row: "insert_found p db = Inr (db @ [row])" "found_row p row"
        "lt_id row = next_id (map lt_id db)" by blast
      have fresh: "lt_id row \<notin> lt_id ` set db"
      proof
        assume "lt_id row \<in> lt_id ` set db"
        then have "next_id (map lt_id db) \<in> set (map lt_id db)" using row(3) by simp
        then show False using next_id_greater by blast
      qed
      from Cons.IH [of "ds @ [untracked_msg p]" "db @ [row]"]
      obtain new where n: "snd (check_positions lts ps (ds @ [untracked_msg p], db @ [row]))
           = (db @ [row]) @ new"
        "\<forall>t \<in> set new. lt_id t \<notin> lt_id ` set (db @ [row]) \<and> (\<exists>p \<in> set ps. found_row p t)"
        by blast
      have "snd (check_positions lts (p # ps) (ds, db)) = db @ (row # new)"
        using True n(1) row(1) by (simp add: unmatched_def)
      moreover have "\<forall>t \<in> set (row # new). lt_id t \<notin> lt_id ` set db \<and>
            (\<exists>q \<in> set (p # ps). found_row q t)"
        using fresh row(2) n(2) by auto
      ultimately show ?thesis by blast
    qed
  qed
qed

text \<open>The second loop throws as soon as it meets an unmatched position of another side.\<close>

lemma check_positions_throws:
  "\<exists>p \<in> set ps. unmatched lts p \<and> \<not> binary_side p \<Longrightarrow>
   fst (check_positions lts ps (ds, db)) = Inl check_failed"
proof (induction ps arbitrary: ds db)
  case Nil
  then show ?case by simp
next
  case (Cons p ps)
  show ?case
  proof (cases "unmatched lts p")
    case False
    with Cons.prems have "\<exists>p \<in> set ps. unmatched lts p \<and> \<not> binary_side p" by auto
    from Cons.IH [OF this, of ds db] False show ?thesis by (auto simp: unmatched_def)
  next
    case True
    show ?thesis
    proof (cases "binary_side p")
      case False
      with True show ?thesis by (simp add: insert_found_other unmatched_def)
    next
      case b: True
      from insert_found_binary [OF b, of db]
      obtain row where row: "insert_found p db = Inr (db @ [row])" by blast
      from Cons.prems b have "\<exists>p \<in> set ps. unmatched lts p \<and> \<not> binary_side p" by auto
      from Cons.IH [OF this, of "ds @ [untracked_msg p]" "db @ [row]"] True row
      show ?thesis by (simp add: unmatched_def)
    qed
  qed
qed


lemma lt_id_mark [simp]: "lt_id (mark st db t) = lt_id t"
  by (simp add: mark_def)

lemma after_first_loop:
  "check_local_trades st (select_open_pending db) ([], db) =
     (map missing_msg (filter (flagged st) (select_open_pending db)), map (mark st db) db)"
  using check_local_trades_fst [of st "select_open_pending db" "[]" db]
        check_local_trades_snd [of st "select_open_pending db" "[]" db]
  by (simp add: prod_eq_iff mark_def marked_ids_def)

lemma ids_after_first_loop: "lt_id ` set (map (mark st db) db) = lt_id ` set db"
proof -
  have "map lt_id (map (mark st db) db) = map lt_id db" by simp
  then show ?thesis by (metis set_map)
qed

lemma reconcile_binary:
  assumes "\<forall>p \<in> set (positions (fresh_state up now)).
             unmatched (select_open_pending db) p \<longrightarrow> binary_side p"
  shows "\<exists>new. reconcile sm up now db =
     (Inr \<lparr>synced = (map missing_msg (filter (flagged (fresh_state up now)) (select_open_pending db)) @
                       map untracked_msg (filter (unmatched (select_open_pending db))
                          (positions (fresh_state up now))) = []),
           discrepancies = map missing_msg (filter (flagged (fresh_state up now)) (select_open_pending db)) @
                       map untracked_msg (filter (unmatched (select_open_pending db))
                          (positions (fresh_state up now)))\<rparr>,
      sm\<lparr>cachedState := Some (fresh_state up now), lastError := None\<rparr>,
      map (mark (fresh_state up now) db) db @ new)
   \<and> list_all2 found_row (filter (unmatched (select_open_pending db)) (positions (fresh_state up now))) new
   \<and> (\<forall>t \<in> set new. lt_id t \<notin> lt_id ` set db)"
proof -
  let ?st = "fresh_state up now"
  let ?lts = "select_open_pending db"
  let ?ds1 = "map missing_msg (filter (flagged ?st) ?lts)"
  let ?db1 = "map (mark ?st db) db"
  from check_positions_binary [OF assms, of ?ds1 ?db1]
  obtain new where n: "check_positions ?lts (positions ?st) (?ds1, ?db1) =
           (Inr (?ds1 @ map untracked_msg (filter (unmatched ?lts) (positions ?st))), ?db1 @ new)"
     "list_all2 found_row (filter (unmatched ?lts) (positions ?st)) new"
     "\<forall>t \<in> set new. lt_id t \<notin> lt_id ` set ?db1" by blast
  have "reconcile sm up now db =
     (Inr \<lparr>synced = (?ds1 @ map untracked_msg (filter (unmatched ?lts) (positions ?st)) = []),
           discrepancies = ?ds1 @ map untracked_msg (filter (unmatched ?lts) (positions ?st))\<rparr>,
      sm\<lparr>cachedState := Some ?st, lastError := None\<rparr>, ?db1 @ new)"
    using n(1) by (simp add: reconcile_def getState_forced Let_def after_first_loop)
  then show ?thesis using n(2,3) ids_after_first_loop [of ?st db] by auto
qed

lemma reconcile_ledger:
  "\<exists>new. snd (snd (reconcile sm up now db)) = map (mark (fresh_state up now) db) db @ new \<and>
     (\<forall>t \<in> set new. lt_id t \<notin> lt_id ` set db \<and>
        (\<exists>p \<in> set (positions (fresh_state up now)). found_row p t))"
proof -
  let ?st = "fresh_state up now"
  let ?lts = "select_open_pending db"
  let ?ds1 = "map missing_msg (filter (flagged ?st) ?lts)"
  let ?db1 = "map (mark ?st db) db"
  from check_positions_appends [of ?lts "positions ?st" ?ds1 ?db1]
  obtain new where n: "snd (check_positions ?lts (positions ?st) (?ds1, ?db1)) = ?db1 @ new"
     "\<forall>t \<in> set new. lt_id t \<notin> lt_id ` set ?db1 \<and> (\<exists>p \<in> set (positions ?st). found_row p t)"
    by blast
  obtain o2 d2 where cp: "check_positions ?lts (positions ?st) (?ds1, ?db1) = (o2, d2)"
    by force
  with n(1) have d2: "d2 = ?db1 @ new" by simp
  have "snd (snd (reconcile sm up now db)) = d2"
    using cp by (cases o2) (simp_all add: reconcile_def getState_forced Let_def after_first_loop)
  then show ?thesis using d2 n(2) ids_after_first_loop [of ?st db] by auto
qed

lemma reconcile_throws:
  assumes "\<exists>p \<in> set (positions (fresh_state up now)).
             unmatched (select_open_pending db) p \<and> \<not> binary_side p"
  shows "fst (reconcile sm up now db) = Inl check_failed"
proof -
  let ?st = "fresh_state up now"
  let ?lts = "select_open_pending db"
  let ?ds1 = "map missing_msg (filter (flagged ?st) ?lts)"
  let ?db1 = "map (mark ?st db) db"
  obtain o2 d2 where cp: "check_positions ?lts (positions ?st) (?ds1, ?db1) = (o2, d2)"
    by force
  with check_positions_throws [OF assms, of ?ds1 ?db1] have "o2 = Inl check_failed" by simp
  with cp show ?thesis
    by (simp add: reconcile_def getState_forced Let_def after_first_loop)
qed

lemma list_all2_witness:
  "list_all2 P xs ys \<Longrightarrow> x \<in> set xs \<Longrightarrow> \<exists>y \<in> set ys. P x y"
  by (induction rule: list_all2_induct) auto

lemma list_all2_witness_rev:
  "list_all2 P xs ys \<Longrightarrow> y \<in> set ys \<Longrightarrow> \<exists>x \<in> set xs. P x y"
  by (induction rule: list_all2_induct) auto

lemma not_marked:
  assumes "distinct (map lt_id db)" "t \<in> set db" "\<not> flagged st t"
  shows "mark st db t = t"
proof -
  have "lt_id t \<notin> marked_ids st db"
  proof
    assume "lt_id t \<in> marked_ids st db"
    then obtain l where l: "l \<in> set db" "flagged st l" "lt_id l = lt_id t"
      by (auto simp: marked_ids_def select_open_pending_def)
    from assms(1) l(1,3) assms(2) have "l = t"
      by (meson distinct_map inj_onD)
    with l(2) assms(3) show False by simp
  qed
  then show ?thesis by (simp add: mark_def)
qed

lemma is_marked:
  assumes "t \<in> set db" "flagged st t"
  shows "mark st db t = unknown_of t"
proof -
  from assms have "t \<in> set (filter (flagged st) (select_open_pending db))"
    by (simp add: select_open_pending_def flagged_def)
  then have "lt_id t \<in> marked_ids st db" by (simp add: marked_ids_def)
  then show ?thesis by (simp add: mark_def)
qed

lemma positions_fresh_state:
  "map pos_marketId (positions (fresh_state up now)) =
   map pos_marketId (positions (fresh_state up now'))"
  by (simp add: fresh_state_def Let_def position_of_raw_def
        split: positions_reply.splits option.splits)

lemma openOrders_fresh_state:
  "openOrders (fresh_state up now) = openOrders (fresh_state up now')"
  by (simp add: fresh_state_def Let_def)

lemma has_position_markets:
  "has_position st m = (m \<in> set (map pos_marketId (positions st)))"
  by (auto simp: has_position_def list_ex_iff)

lemma has_position_fresh:
  "has_position (fresh_state up now) m = has_position (fresh_state up now') m"
  unfolding has_position_markets using positions_fresh_state [of up now now'] by simp

lemma has_order_fresh:
  "has_order (fresh_state up now) m = has_order (fresh_state up now') m"
  by (simp add: has_order_def openOrders_fresh_state [of up now now'])

lemma flagged_fresh:
  "flagged (fresh_state up now) t = flagged (fresh_state up now') t"
  by (simp add: flagged_def has_position_fresh [of up now _ now'] has_order_fresh [of up now _ now'])

lemma unmatched_iff:
  "unmatched lts p = (pos_marketId p \<notin> lt_market_id ` set lts)"
  by (force simp: unmatched_def find_None_iff)

lemma upper_No: "toUpperCase ''No'' = ''NO''"
  by (simp add: toUpperCase_def upper_char_def)

lemma upper_Up: "toUpperCase ''Up'' = ''UP''"
  by (simp add: toUpperCase_def upper_char_def)

subsection \<open>Claim C4: the repairs of reconcile\<close>

text \<open>
  C4, as stated, covers local records with status \<open>open\<close> or \<open>pending\<close>. The test of
  the first loop ends with \<open>localTrade.status === 'open'\<close>: a \<open>pending\<close> record whose
  market has neither a position nor an open order at the venue is left as it is, and no
  discrepancy is reported for it.
\<close>

theorem C4_pending_counterexample:
  "fst (reconcile (newStateManager 30000)
         \<lparr>getBalanceAllowance = Value 0, eth_call_balanceOf = Value 0,
          getOpenOrders = Value [], data_api_positions = PositionsJson (Some [])\<rparr>
         1700000000000
         [\<lparr>lt_id = 1, lt_market_id = ''m1'', lt_token_id = Some ''tok1'', lt_side = YES,
           lt_entry_price = Some (8/10), lt_size = 10, lt_size_usd = Some 8,
           lt_status = Pending, lt_entry_time = Some 1699999000000,
           lt_order_id = Some ''o1'', lt_notes = None\<rparr>])
     = Inr \<lparr>synced = True, discrepancies = []\<rparr>
   \<and> snd (snd (reconcile (newStateManager 30000)
         \<lparr>getBalanceAllowance = Value 0, eth_call_balanceOf = Value 0,
          getOpenOrders = Value [], data_api_positions = PositionsJson (Some [])\<rparr>
         1700000000000
         [\<lparr>lt_id = 1, lt_market_id = ''m1'', lt_token_id = Some ''tok1'', lt_side = YES,
           lt_entry_price = Some (8/10), lt_size = 10, lt_size_usd = Some 8,
           lt_status = Pending, lt_entry_time = Some 1699999000000,
           lt_order_id = Some ''o1'', lt_notes = None\<rparr>]))
     = [\<lparr>lt_id = 1, lt_market_id = ''m1'', lt_token_id = Some ''tok1'', lt_side = YES,
           lt_entry_price = Some (8/10), lt_size = 10, lt_size_usd = Some 8,
           lt_status = Pending, lt_entry_time = Some 1699999000000,
           lt_order_id = Some ''o1'', lt_notes = None\<rparr>]"
  by (simp add: reconcile_def getState_forced fresh_state_def select_open_pending_def
        has_position_def has_order_def Let_def)

text \<open>
  C4 (amended): every local record with status \<open>open\<close> whose market has neither a
  position nor an open order at the venue gets status \<open>unknown\<close> and the note "position
  not found"; every other record (in particular every \<open>pending\<close> one) is left as it is;
  no record is deleted and none is newly marked closed. When every position of the venue
  whose market has no local record with status \<open>open\<close> or \<open>pending\<close> has side \<open>YES\<close>
  or \<open>NO\<close>, \<open>reconcile\<close> returns, a discrepancy string is recorded for each record
  marked \<open>unknown\<close>, and for every such position a new record is inserted under a fresh
  id, with status \<open>open\<close>, the position's market, side, entry price and size and the
  provenance note "found on Polymarket", and a discrepancy string is recorded.
\<close>

theorem C4_reconcile_repairs:
  assumes d: "distinct (map lt_id db)"
    and run: "reconcile sm up now db = (out, sm', db')"
    and st: "st = fresh_state up now"
  shows "(\<forall>t\<in>set db. flagged st t \<longrightarrow> unknown_of t \<in> set db')
    \<and> (\<forall>t\<in>set db. \<not> flagged st t \<longrightarrow> t \<in> set db')
    \<and> map lt_id (take (length db) db') = map lt_id db
    \<and> (\<forall>t'\<in>set db'. lt_status t' = Closed \<longrightarrow> t' \<in> set db)
    \<and> ((\<forall>p\<in>set (positions st). unmatched (select_open_pending db) p \<longrightarrow> binary_side p) \<longrightarrow>
        (\<exists>res. out = Inr res
           \<and> (\<forall>t\<in>set db. flagged st t \<longrightarrow> missing_msg t \<in> set (discrepancies res))
           \<and> (\<forall>p\<in>set (positions st). unmatched (select_open_pending db) p \<longrightarrow>
                 (\<exists>t'\<in>set db'. lt_id t' \<notin> lt_id ` set db \<and> found_row p t') \<and>
                 untracked_msg p \<in> set (discrepancies res))))"
proof -
  let ?lts = "select_open_pending db"
  from reconcile_ledger [of sm up now db] run st
  obtain new where db': "db' = map (mark st db) db @ new"
    and new: "\<forall>t \<in> set new. lt_id t \<notin> lt_id ` set db \<and> (\<exists>p \<in> set (positions st). found_row p t)"
    by auto
  have 1: "\<forall>t\<in>set db. flagged st t \<longrightarrow> unknown_of t \<in> set db'"
  proof (intro ballI impI)
    fix t assume t: "t \<in> set db" "flagged st t"
    then have "mark st db t = unknown_of t" by (rule is_marked)
    then have "unknown_of t \<in> set (map (mark st db) db)" using t(1) by force
    then show "unknown_of t \<in> set db'" by (simp add: db')
  qed
  have 2: "\<forall>t\<in>set db. \<not> flagged st t \<longrightarrow> t \<in> set db'"
  proof (intro ballI impI)
    fix t assume t: "t \<in> set db" "\<not> flagged st t"
    with d have "mark st db t = t" by (rule not_marked)
    then have "t \<in> set (map (mark st db) db)" using t(1) by force
    then show "t \<in> set db'" by (simp add: db')
  qed
  have 3: "map lt_id (take (length db) db') = map lt_id db" by (simp add: db')
  have 4: "\<forall>t'\<in>set db'. lt_status t' = Closed \<longrightarrow> t' \<in> set db"
  proof (intro ballI impI)
    fix t' assume t': "t' \<in> set db'" "lt_status t' = Closed"
    show "t' \<in> set db"
    proof (cases "t' \<in> set new")
      case True
      with new t'(2) show ?thesis by (auto simp: found_row_def)
    next
      case False
      with t'(1) obtain t where t: "t \<in> set db" "t' = mark st db t"
        by (auto simp: db')
      with t'(2) show ?thesis by (auto simp: mark_def unknown_of_def split: if_splits)
    qed
  qed
  have 5: "(\<forall>p\<in>set (positions st). unmatched ?lts p \<longrightarrow> binary_side p) \<longrightarrow>
        (\<exists>res. out = Inr res
           \<and> (\<forall>t\<in>set db. flagged st t \<longrightarrow> missing_msg t \<in> set (discrepancies res))
           \<and> (\<forall>p\<in>set (positions st). unmatched ?lts p \<longrightarrow>
                 (\<exists>t'\<in>set db'. lt_id t' \<notin> lt_id ` set db \<and> found_row p t') \<and>
                 untracked_msg p \<in> set (discrepancies res)))"
  proof
    assume b: "\<forall>p\<in>set (positions st). unmatched ?lts p \<longrightarrow> binary_side p"
    let ?ds = "map missing_msg (filter (flagged st) ?lts) @
               map untracked_msg (filter (unmatched ?lts) (positions st))"
    from reconcile_binary [OF b [unfolded st], of sm] run st
    obtain new' where o: "out = Inr \<lparr>synced = (?ds = []), discrepancies = ?ds\<rparr>"
      and d': "db' = map (mark st db) db @ new'"
      and n: "list_all2 found_row (filter (unmatched ?lts) (positions st)) new'"
      and f: "\<forall>t \<in> set new'. lt_id t \<notin> lt_id ` set db" by auto
    define res where "res = \<lparr>synced = (?ds = []), discrepancies = ?ds\<rparr>"
    have dres: "discrepancies res = ?ds" by (simp add: res_def)
    have a: "\<forall>t\<in>set db. flagged st t \<longrightarrow> missing_msg t \<in> set (discrepancies res)"
    proof (intro ballI impI)
      fix t assume t: "t \<in> set db" "flagged st t"
      then have "t \<in> set (filter (flagged st) ?lts)"
        by (simp add: select_open_pending_def flagged_def)
      then show "missing_msg t \<in> set (discrepancies res)" unfolding dres by simp
    qed
    have c: "\<forall>p\<in>set (positions st). unmatched ?lts p \<longrightarrow>
                 (\<exists>t'\<in>set db'. lt_id t' \<notin> lt_id ` set db \<and> found_row p t') \<and>
                 untracked_msg p \<in> set (discrepancies res)"
    proof (intro ballI impI)
      fix p assume p: "p \<in> set (positions st)" "unmatched ?lts p"
      then have "p \<in> set (filter (unmatched ?lts) (positions st))" by simp
      from list_all2_witness [OF n this] obtain t' where t': "t' \<in> set new'" "found_row p t'" by blast
      have "t' \<in> set db'" using t'(1) by (simp add: d')
      moreover have "lt_id t' \<notin> lt_id ` set db" using f t'(1) by blast
      moreover have "untracked_msg p \<in> set (discrepancies res)"
        unfolding dres using p by simp
      ultimately show "(\<exists>t'\<in>set db'. lt_id t' \<notin> lt_id ` set db \<and> found_row p t') \<and>
          untracked_msg p \<in> set (discrepancies res)" using t'(2) by blast
    qed
    from o a c show "\<exists>res. out = Inr res
           \<and> (\<forall>t\<in>set db. flagged st t \<longrightarrow> missing_msg t \<in> set (discrepancies res))
           \<and> (\<forall>p\<in>set (positions st). unmatched ?lts p \<longrightarrow>
                 (\<exists>t'\<in>set db'. lt_id t' \<notin> lt_id ` set db \<and> found_row p t') \<and>
                 untracked_msg p \<in> set (discrepancies res))"
      unfolding res_def by blast
  qed
  show ?thesis by (intro conjI, rule 1, rule 2, rule 3, rule 4, rule 5)
qed

theorem C4_reconcile_repairs_witness:
  "\<exists>res sm' db'.
     reconcile (newStateManager 30000)
       \<lparr>getBalanceAllowance = Value 0, eth_call_balanceOf = Value 0,
        getOpenOrders = Value [],
        data_api_positions = PositionsJson (Some
          [\<lparr>conditionId = ''m3'', asset = ''tok3'', rp_outcome = Some ''No'', rp_size = Some 20,
            avgPrice = Some (1/4), rp_currentValue = Some 6, curPrice = Some (3/10),
            cashPnl = Some 1, title = None\<rparr>])\<rparr>
       1700000000000
       [\<lparr>lt_id = 1, lt_market_id = ''m1'', lt_token_id = None, lt_side = YES,
         lt_entry_price = None, lt_size = 10, lt_size_usd = None,
         lt_status = Open, lt_entry_time = None, lt_order_id = None, lt_notes = None\<rparr>,
        \<lparr>lt_id = 2, lt_market_id = ''m2'', lt_token_id = None, lt_side = YES,
         lt_entry_price = None, lt_size = 10, lt_size_usd = None,
         lt_status = Pending, lt_entry_time = None, lt_order_id = None, lt_notes = None\<rparr>]
     = (Inr res, sm', db')
   \<and> \<lparr>lt_id = 1, lt_market_id = ''m1'', lt_token_id = None, lt_side = YES,
         lt_entry_price = None, lt_size = 10, lt_size_usd = None,
         lt_status = Unknown, lt_entry_time = None, lt_order_id = None,
         lt_notes = Some ''Reconciliation: position not found on Polymarket''\<rparr> \<in> set db'
   \<and> ''Local trade 1 shows 'open' but no position/order on Polymarket'' \<in> set (discrepancies res)
   \<and> \<lparr>lt_id = 2, lt_market_id = ''m2'', lt_token_id = None, lt_side = YES,
         lt_entry_price = None, lt_size = 10, lt_size_usd = None,
         lt_status = Pending, lt_entry_time = None, lt_order_id = None, lt_notes = None\<rparr> \<in> set db'
   \<and> (\<exists>t' \<in> set db'. lt_id t' \<notin> {1, 2} \<and> lt_market_id t' = ''m3'' \<and> lt_status t' = Open
          \<and> lt_side t' = NO
          \<and> lt_notes t' = Some ''Reconciliation: found on Polymarket'')
   \<and> ''Position in m3 exists on Polymarket but not in local database'' \<in> set (discrepancies res)"
proof -
  let ?raw = "\<lparr>conditionId = ''m3'', asset = ''tok3'', rp_outcome = Some ''No'', rp_size = Some 20,
            avgPrice = Some (1/4), rp_currentValue = Some 6, curPrice = Some (3/10),
            cashPnl = Some 1, title = None\<rparr>"
  let ?up = "\<lparr>getBalanceAllowance = Value 0, eth_call_balanceOf = Value 0,
        getOpenOrders = Value [], data_api_positions = PositionsJson (Some [?raw])\<rparr>"
  let ?t1 = "\<lparr>lt_id = 1, lt_market_id = ''m1'', lt_token_id = None, lt_side = YES,
         lt_entry_price = None, lt_size = 10, lt_size_usd = None,
         lt_status = Open, lt_entry_time = None, lt_order_id = None, lt_notes = None\<rparr>"
  let ?t2 = "\<lparr>lt_id = 2, lt_market_id = ''m2'', lt_token_id = None, lt_side = YES,
         lt_entry_price = None, lt_size = 10, lt_size_usd = None,
         lt_status = Pending, lt_entry_time = None, lt_order_id = None, lt_notes = None\<rparr>"
  let ?now = "1700000000000 :: int"
  let ?p = "position_of_raw ?now ?raw"
  let ?st = "fresh_state ?up ?now"
  let ?R = "reconcile (newStateManager 30000) ?up ?now [?t1, ?t2]"
  have d: "distinct (map lt_id [?t1, ?t2])" by simp
  have run: "?R = (fst ?R, fst (snd ?R), snd (snd ?R))" by simp
  have ps: "positions ?st = [?p]" and os: "openOrders ?st = []"
    by (simp_all add: fresh_state_def Let_def)
  have side: "pos_side ?p = ''NO''" by (simp add: position_of_raw_def upper_No)
  have mk: "pos_marketId ?p = ''m3''" by (simp add: position_of_raw_def)
  have f1: "flagged ?st ?t1"
    by (simp add: flagged_def has_position_def has_order_def ps os mk)
  have f2: "\<not> flagged ?st ?t2"
    by (simp add: flagged_def)
  have u: "unmatched (select_open_pending [?t1, ?t2]) ?p"
    by (simp add: unmatched_def select_open_pending_def mk)
  have b: "\<forall>p\<in>set (positions ?st). unmatched (select_open_pending [?t1, ?t2]) p \<longrightarrow> binary_side p"
    by (simp add: ps binary_side_def side)
  note main = C4_reconcile_repairs [OF d run refl]
  from main f1 have a1: "unknown_of ?t1 \<in> set (snd (snd ?R))" by simp
  from main f2 have b1: "?t2 \<in> set (snd (snd ?R))" by simp
  from main b obtain res where res: "fst ?R = Inr res"
    and ms: "\<forall>t\<in>set [?t1, ?t2]. flagged ?st t \<longrightarrow> missing_msg t \<in> set (discrepancies res)"
    and c: "\<forall>p\<in>set (positions ?st). unmatched (select_open_pending [?t1, ?t2]) p \<longrightarrow>
          (\<exists>t'\<in>set (snd (snd ?R)). lt_id t' \<notin> lt_id ` set [?t1, ?t2] \<and> found_row p t') \<and>
          untracked_msg p \<in> set (discrepancies res)"
    by blast
  from ms f1 have a2: "missing_msg ?t1 \<in> set (discrepancies res)" by simp
  from c u ps obtain t' where t': "t' \<in> set (snd (snd ?R))" "lt_id t' \<notin> lt_id ` set [?t1, ?t2]"
     "found_row ?p t'" and m: "untracked_msg ?p \<in> set (discrepancies res)"
    by auto
  have "lt_id t' \<notin> {1, 2} \<and> lt_market_id t' = ''m3'' \<and> lt_status t' = Open
          \<and> lt_side t' = NO
          \<and> lt_notes t' = Some ''Reconciliation: found on Polymarket''"
    using t'(2,3) by (simp add: found_row_def mk side side_of_label_def)
  with t'(1) have e: "\<exists>t' \<in> set (snd (snd ?R)). lt_id t' \<notin> {1, 2} \<and> lt_market_id t' = ''m3''
          \<and> lt_status t' = Open \<and> lt_side t' = NO
          \<and> lt_notes t' = Some ''Reconciliation: found on Polymarket''" by blast
  have m1: "missing_msg ?t1 = ''Local trade 1 shows 'open' but no position/order on Polymarket''"
    by (simp add: missing_msg_def show_nat.simps)
  have m3: "untracked_msg ?p = ''Position in m3 exists on Polymarket but not in local database''"
    by (simp add: untracked_msg_def mk)
  have u1: "unknown_of ?t1 = \<lparr>lt_id = 1, lt_market_id = ''m1'', lt_token_id = None, lt_side = YES,
         lt_entry_price = None, lt_size = 10, lt_size_usd = None,
         lt_status = Unknown, lt_entry_time = None, lt_order_id = None,
         lt_notes = Some ''Reconciliation: position not found on Polymarket''\<rparr>"
    by (simp add: unknown_of_def)
  have r: "?R = (Inr res, fst (snd ?R), snd (snd ?R))" using res by (simp add: prod_eq_iff)
  show ?thesis
    apply (rule exI [of _ res], rule exI [of _ "fst (snd ?R)"], rule exI [of _ "snd (snd ?R)"])
    using r a1 a2 b1 e m unfolding m1 m3 u1 by blast
qed

subsection \<open>Claim C7: reconcile is idempotent\<close>

text \<open>
  When every position that the first call has to insert has side \<open>YES\<close> or \<open>NO\<close>, two
  calls in succession (the venue answering the same way both times, the ledger changed
  only by the repairs of the first call) end with no discrepancy: the first call returns,
  the second reports \<open>synced = true\<close> and changes nothing in the ledger.
\<close>

lemma reconcile_twice_binary:
  assumes d: "distinct (map lt_id db)"
    and b: "\<forall>p \<in> set (positions (fresh_state up now1)).
             unmatched (select_open_pending db) p \<longrightarrow> binary_side p"
    and r1: "reconcile sm up now1 db = (res1, sm1, db1)"
    and r2: "reconcile sm1 up now2 db1 = (res2, sm2, db2)"
  shows "(\<exists>r. res1 = Inr r) \<and> res2 = Inr \<lparr>synced = True, discrepancies = []\<rparr> \<and> db2 = db1"
proof -
  let ?st1 = "fresh_state up now1"
  let ?st2 = "fresh_state up now2"
  let ?lts1 = "select_open_pending db"
  let ?lts2 = "select_open_pending db1"
  from reconcile_binary [OF b, of sm] r1
  obtain new where db1: "db1 = map (mark ?st1 db) db @ new"
    and res1: "\<exists>r. res1 = Inr r"
    and n: "list_all2 found_row (filter (unmatched ?lts1) (positions ?st1)) new"
    by auto
  have A: "\<not> flagged ?st2 t" if t: "t \<in> set db1" for t
  proof
    assume fl: "flagged ?st2 t"
    then have fl1: "flagged ?st1 t" using flagged_fresh [of up now1 t now2] by simp
    show False
    proof (cases "t \<in> set new")
      case True
      from list_all2_witness_rev [OF n True]
      obtain p where "p \<in> set (positions ?st1)" "found_row p t" by auto
      then have "has_position ?st1 (lt_market_id t)"
        by (auto simp: has_position_def list_ex_iff found_row_def)
      with fl1 show False by (simp add: flagged_def)
    next
      case False
      with t db1 obtain t0 where t0: "t0 \<in> set db" "t = mark ?st1 db t0" by auto
      have st: "lt_status t = Open" using fl by (simp add: flagged_def)
      show False
      proof (cases "flagged ?st1 t0")
        case True
        with t0 have "t = unknown_of t0" by (simp add: is_marked)
        with st show False by (simp add: unknown_of_def)
      next
        case False
        with d t0 have "t = t0" by (simp add: not_marked)
        with fl1 False show False by simp
      qed
    qed
  qed
  have B: "\<not> unmatched ?lts2 p2" if p2: "p2 \<in> set (positions ?st2)" for p2
  proof -
    have "pos_marketId p2 \<in> set (map pos_marketId (positions ?st1))"
      using p2 positions_fresh_state [of up now1 now2] by (metis image_eqI set_map)
    then obtain p1 where p1: "p1 \<in> set (positions ?st1)" "pos_marketId p1 = pos_marketId p2"
      by auto
    have "pos_marketId p2 \<in> lt_market_id ` set ?lts2"
    proof (cases "unmatched ?lts1 p1")
      case True
      with p1 have "p1 \<in> set (filter (unmatched ?lts1) (positions ?st1))" by simp
      from list_all2_witness [OF n this] obtain t where t: "t \<in> set new" "found_row p1 t" by blast
      then have "t \<in> set ?lts2" using db1
        by (simp add: select_open_pending_def found_row_def)
      moreover have "lt_market_id t = pos_marketId p2" using t(2) p1(2) by (simp add: found_row_def)
      ultimately show ?thesis by force
    next
      case False
      then obtain t0 where t0: "t0 \<in> set ?lts1" "lt_market_id t0 = pos_marketId p1"
        by (auto simp: unmatched_iff)
      then have t0db: "t0 \<in> set db" and t0st: "lt_status t0 = Open \<or> lt_status t0 = Pending"
        by (auto simp: select_open_pending_def)
      have "has_position ?st1 (lt_market_id t0)"
        using p1(1) t0(2) by (auto simp: has_position_def list_ex_iff)
      then have "\<not> flagged ?st1 t0" by (simp add: flagged_def)
      with d t0db have "mark ?st1 db t0 = t0" by (simp add: not_marked)
      then have "t0 \<in> set db1" using t0db db1 by force
      then have "t0 \<in> set ?lts2" using t0st by (simp add: select_open_pending_def)
      then show ?thesis using t0(2) p1(2) by force
    qed
    then show ?thesis by (simp add: unmatched_iff)
  qed
  have fA: "filter (flagged ?st2) ?lts2 = []"
    using A by (auto simp: filter_empty_conv select_open_pending_def)
  have fB: "filter (unmatched ?lts2) (positions ?st2) = []"
    using B by (auto simp: filter_empty_conv)
  have b2: "\<forall>p \<in> set (positions ?st2). unmatched ?lts2 p \<longrightarrow> binary_side p"
    using B by blast
  from reconcile_binary [OF b2, of sm1] r2 fA fB
  have "res2 = Inr \<lparr>synced = True, discrepancies = []\<rparr>"
    and "db2 = map (mark ?st2 db1) db1"
    by auto
  moreover have "map (mark ?st2 db1) db1 = db1"
  proof -
    have "marked_ids ?st2 db1 = {}" using fA by (simp add: marked_ids_def)
    then have "mark ?st2 db1 = (\<lambda>t. t)" by (simp add: mark_def fun_eq_iff)
    then show ?thesis by simp
  qed
  ultimately show ?thesis using res1 by simp
qed

lemma reconcile_twice_binary_example:
  "fst (reconcile
         (fst (snd (reconcile (newStateManager 30000)
            \<lparr>getBalanceAllowance = Value 0, eth_call_balanceOf = Value 0,
             getOpenOrders = Value [],
             data_api_positions = PositionsJson (Some
               [\<lparr>conditionId = ''m3'', asset = ''tok3'', rp_outcome = Some ''No'', rp_size = Some 20,
                 avgPrice = Some (1/4), rp_currentValue = Some 6, curPrice = Some (3/10),
                 cashPnl = Some 1, title = None\<rparr>])\<rparr>
            1700000000000
            [\<lparr>lt_id = 1, lt_market_id = ''m1'', lt_token_id = None, lt_side = YES,
              lt_entry_price = None, lt_size = 10, lt_size_usd = None,
              lt_status = Open, lt_entry_time = None, lt_order_id = None, lt_notes = None\<rparr>])))
         \<lparr>getBalanceAllowance = Value 0, eth_call_balanceOf = Value 0,
          getOpenOrders = Value [],
          data_api_positions = PositionsJson (Some
            [\<lparr>conditionId = ''m3'', asset = ''tok3'', rp_outcome = Some ''No'', rp_size = Some 20,
              avgPrice = Some (1/4), rp_currentValue = Some 6, curPrice = Some (3/10),
              cashPnl = Some 1, title = None\<rparr>])\<rparr>
         1700000060000
         (snd (snd (reconcile (newStateManager 30000)
            \<lparr>getBalanceAllowance = Value 0, eth_call_balanceOf = Value 0,
             getOpenOrders = Value [],
             data_api_positions = PositionsJson (Some
               [\<lparr>conditionId = ''m3'', asset = ''tok3'', rp_outcome = Some ''No'', rp_size = Some 20,
                 avgPrice = Some (1/4), rp_currentValue = Some 6, curPrice = Some (3/10),
                 cashPnl = Some 1, title = None\<rparr>])\<rparr>
            1700000000000
            [\<lparr>lt_id = 1, lt_market_id = ''m1'', lt_token_id = None, lt_side = YES,
              lt_entry_price = None, lt_size = 10, lt_size_usd = None,
              lt_status = Open, lt_entry_time = None, lt_order_id = None, lt_notes = None\<rparr>]))))
     = Inr \<lparr>synced = True, discrepancies = []\<rparr>
   \<and> map_sum (\<lambda>e. e) (\<lambda>r. length (discrepancies r))
        (fst (reconcile (newStateManager 30000)
            \<lparr>getBalanceAllowance = Value 0, eth_call_balanceOf = Value 0,
             getOpenOrders = Value [],
             data_api_positions = PositionsJson (Some
               [\<lparr>conditionId = ''m3'', asset = ''tok3'', rp_outcome = Some ''No'', rp_size = Some 20,
                 avgPrice = Some (1/4), rp_currentValue = Some 6, curPrice = Some (3/10),
                 cashPnl = Some 1, title = None\<rparr>])\<rparr>
            1700000000000
            [\<lparr>lt_id = 1, lt_market_id = ''m1'', lt_token_id = None, lt_side = YES,
              lt_entry_price = None, lt_size = 10, lt_size_usd = None,
              lt_status = Open, lt_entry_time = None, lt_order_id = None, lt_notes = None\<rparr>]))
     = Inr 2"
proof -
  let ?up = "\<lparr>getBalanceAllowance = Value 0, eth_call_balanceOf = Value 0,
             getOpenOrders = Value [],
             data_api_positions = PositionsJson (Some
               [\<lparr>conditionId = ''m3'', asset = ''tok3'', rp_outcome = Some ''No'', rp_size = Some 20,
                 avgPrice = Some (1/4), rp_currentValue = Some 6, curPrice = Some (3/10),
                 cashPnl = Some 1, title = None\<rparr>])\<rparr>"
  let ?db = "[\<lparr>lt_id = 1, lt_market_id = ''m1'', lt_token_id = None, lt_side = YES,
              lt_entry_price = None, lt_size = 10, lt_size_usd = None,
              lt_status = Open, lt_entry_time = None, lt_order_id = None, lt_notes = None\<rparr>]"
  let ?R1 = "reconcile (newStateManager 30000) ?up 1700000000000 ?db"
  let ?R2 = "reconcile (fst (snd ?R1)) ?up 1700000060000 (snd (snd ?R1))"
  have d: "distinct (map lt_id ?db)" by simp
  have b: "\<forall>p \<in> set (positions (fresh_state ?up 1700000000000)).
             unmatched (select_open_pending ?db) p \<longrightarrow> binary_side p"
    by (simp add: fresh_state_def Let_def binary_side_def position_of_raw_def upper_No)
  have c1: "?R1 = (fst ?R1, fst (snd ?R1), snd (snd ?R1))" by simp
  have c2: "?R2 = (fst ?R2, fst (snd ?R2), snd (snd ?R2))" by simp
  from reconcile_twice_binary [OF d b c1 c2]
  have "fst ?R2 = Inr \<lparr>synced = True, discrepancies = []\<rparr>" by blast
  moreover have "map_sum (\<lambda>e. e) (\<lambda>r. length (discrepancies r)) (fst ?R1) = Inr 2"
    by (simp add: reconcile_def getState_forced fresh_state_def select_open_pending_def
        has_position_def has_order_def position_of_raw_def Let_def upper_No
        insert_found_def side_of_label_def)
  ultimately show ?thesis by blast
qed

text \<open>
  C7: \<open>reconcile\<close> is idempotent: called twice in succession, nothing else changing, the
  second call reports no discrepancy (\<open>synced = true\<close>). The code fails this at a venue
  position of an outcome other than Yes and No whose market has no local record: here
  one position with outcome label \<open>Up\<close> in market \<open>m9\<close>, and one local record, open, in
  market \<open>m1\<close>, which has nothing at the venue. The first call marks the local record
  \<open>unknown\<close> and then throws at the INSERT of the position (side \<open>UP\<close> fails the CHECK of
  \<open>live_trades\<close>); the second call, on the ledger the first one left and the same answers
  of the venue, throws again: no call returns \<open>synced = true\<close>.
\<close>

theorem C7_other_outcome_never_synced:
  "reconcile (newStateManager 30000)
      \<lparr>getBalanceAllowance = Value 0, eth_call_balanceOf = Value 0,
       getOpenOrders = Value [],
       data_api_positions = PositionsJson (Some
         [\<lparr>conditionId = ''m9'', asset = ''tok9'', rp_outcome = Some ''Up'', rp_size = Some 20,
           avgPrice = Some (1/4), rp_currentValue = Some 6, curPrice = Some (3/10),
           cashPnl = Some 1, title = None\<rparr>])\<rparr>
      1700000000000
      [\<lparr>lt_id = 1, lt_market_id = ''m1'', lt_token_id = None, lt_side = YES,
        lt_entry_price = None, lt_size = 10, lt_size_usd = None,
        lt_status = Open, lt_entry_time = None, lt_order_id = None, lt_notes = None\<rparr>]
    = (Inl ''CHECK constraint failed: live_trades'',
       (newStateManager 30000)\<lparr>cachedState := Some (fresh_state
          \<lparr>getBalanceAllowance = Value 0, eth_call_balanceOf = Value 0,
           getOpenOrders = Value [],
           data_api_positions = PositionsJson (Some
             [\<lparr>conditionId = ''m9'', asset = ''tok9'', rp_outcome = Some ''Up'', rp_size = Some 20,
               avgPrice = Some (1/4), rp_currentValue = Some 6, curPrice = Some (3/10),
               cashPnl = Some 1, title = None\<rparr>])\<rparr> 1700000000000), lastError := None\<rparr>,
       [\<lparr>lt_id = 1, lt_market_id = ''m1'', lt_token_id = None, lt_side = YES,
         lt_entry_price = None, lt_size = 10, lt_size_usd = None,
         lt_status = Unknown, lt_entry_time = None, lt_order_id = None,
         lt_notes = Some ''Reconciliation: position not found on Polymarket''\<rparr>])
   \<and> fst (reconcile
        ((newStateManager 30000)\<lparr>cachedState := Some (fresh_state
          \<lparr>getBalanceAllowance = Value 0, eth_call_balanceOf = Value 0,
           getOpenOrders = Value [],
           data_api_positions = PositionsJson (Some
             [\<lparr>conditionId = ''m9'', asset = ''tok9'', rp_outcome = Some ''Up'', rp_size = Some 20,
               avgPrice = Some (1/4), rp_currentValue = Some 6, curPrice = Some (3/10),
               cashPnl = Some 1, title = None\<rparr>])\<rparr> 1700000000000), lastError := None\<rparr>)
        \<lparr>getBalanceAllowance = Value 0, eth_call_balanceOf = Value 0,
         getOpenOrders = Value [],
         data_api_positions = PositionsJson (Some
           [\<lparr>conditionId = ''m9'', asset = ''tok9'', rp_outcome = Some ''Up'', rp_size = Some 20,
             avgPrice = Some (1/4), rp_currentValue = Some 6, curPrice = Some (3/10),
             cashPnl = Some 1, title = None\<rparr>])\<rparr>
        1700000060000
        [\<lparr>lt_id = 1, lt_market_id = ''m1'', lt_token_id = None, lt_side = YES,
          lt_entry_price = None, lt_size = 10, lt_size_usd = None,
          lt_status = Unknown, lt_entry_time = None, lt_order_id = None,
          lt_notes = Some ''Reconciliation: position not found on Polymarket''\<rparr>])
     = Inl ''CHECK constraint failed: live_trades''"
  by (simp add: reconcile_def getState_forced fresh_state_def select_open_pending_def
        has_position_def has_order_def position_of_raw_def Let_def upper_Up
        insert_found_def side_of_label_def check_failed_def set_unknown_def)

subsection \<open>The pre-flight checks and the try block of placeBuyOrder\<close>

lemma with_cache_idem [simp]: "with_cache (with_cache sm st) st = with_cache sm st"
  by (simp add: with_cache_def)

lemma threshold_with_cache [simp]: "staleThresholdMs (with_cache sm st) = staleThresholdMs sm"
  by (simp add: with_cache_def)

lemma getState_forced_with_cache:
  "getState sm up t True = (Inr (fresh_state up t), with_cache sm (fresh_state up t))"
  by (simp add: getState_forced with_cache_def)

lemma getState_unforced_with_cache:
  "\<exists>st'. getState (with_cache sm (fresh_state up t)) up t False
            = (Inr st', with_cache sm (fresh_state up t))
     \<and> positions st' = positions (fresh_state up t)
     \<and> openOrders st' = openOrders (fresh_state up t)
     \<and> balance st' = balance (fresh_state up t)"
proof (cases "0 < staleThresholdMs sm")
  case True
  then have "\<not> getState_fetches (with_cache sm (fresh_state up t)) t False"
    by (simp add: getState_fetches_def cache_fresh_def with_cache_def fresh_state_def Let_def)
  from getState_cached [OF this, of up] show ?thesis
    by (auto simp: with_cache_def)
next
  case False
  then have "getState_fetches (with_cache sm (fresh_state up t)) t False"
    by (simp add: getState_fetches_def cache_fresh_def with_cache_def fresh_state_def Let_def)
  from getState_fetching [OF this, of up] show ?thesis
    by (simp add: with_cache_def)
qed

lemma fetches_unforced_with_cache:
  "getState_fetches (with_cache sm (fresh_state up t)) t False = (\<not> 0 < staleThresholdMs sm)"
  by (simp add: getState_fetches_def cache_fresh_def with_cache_def fresh_state_def Let_def)

lemma hasPositionInMarket_value:
  "hasPositionInMarket sm up t m =
     (Inr (has_position (fresh_state up t) m), with_cache sm (fresh_state up t))"
  by (simp add: hasPositionInMarket_def getState_forced_with_cache has_position_def)

lemma hasOpenOrderForMarket_value:
  "hasOpenOrderForMarket sm up t m =
     (Inr (has_order (fresh_state up t) m), with_cache sm (fresh_state up t))"
  by (simp add: hasOpenOrderForMarket_def getState_forced_with_cache has_order_def)

lemma getTotalExposure_value:
  "getTotalExposure (with_cache sm (fresh_state up t)) up t =
     (Inr (total_exposure (fresh_state up t)), with_cache sm (fresh_state up t))"
  using getState_unforced_with_cache [of sm up t]
  by (auto simp: getTotalExposure_def total_exposure_def)

lemma getAvailableBalance_value:
  "getAvailableBalance (with_cache sm (fresh_state up t)) up t =
     (Inr (available_balance (fresh_state up t)), with_cache sm (fresh_state up t))"
  using getState_unforced_with_cache [of sm up t]
  by (auto simp: getAvailableBalance_def available_balance_def)

lemma via_hasPosition:
  "via_stateManager e True (\<lambda>sm up t. hasPositionInMarket sm up t m) s =
     (Inr (has_position (fresh_state (world e) (clock e)) m), checked e [StateFetch] s)"
  by (simp add: via_stateManager_def hasPositionInMarket_value getState_fetches_def
        checked_def emit_def Let_def)

lemma via_hasOrder:
  "via_stateManager e True (\<lambda>sm up t. hasOpenOrderForMarket sm up t m) (checked e evs s) =
     (Inr (has_order (fresh_state (world e) (clock e)) m), checked e (evs @ [StateFetch]) s)"
  by (simp add: via_stateManager_def hasOpenOrderForMarket_value getState_fetches_def
        checked_def emit_def Let_def)

lemma via_getTotalExposure:
  "via_stateManager e False getTotalExposure (checked e evs s) =
     (Inr (total_exposure (fresh_state (world e) (clock e))),
      checked e (evs @ refetch (stateManager s)) s)"
  by (simp add: via_stateManager_def getTotalExposure_value fetches_unforced_with_cache
        checked_def emit_def Let_def refetch_def)

lemma via_getAvailableBalance:
  "via_stateManager e False getAvailableBalance (checked e evs s) =
     (Inr (available_balance (fresh_state (world e) (clock e))),
      checked e (evs @ refetch (stateManager s)) s)"
  by (simp add: via_stateManager_def getAvailableBalance_value fetches_unforced_with_cache
        checked_def emit_def Let_def refetch_def)

lemma placeBuyOrder_cases:
  assumes "k = key_or_generate e request request"
    and "find_order k (order_tracking s) = None"
    and "st = fresh_state (world e) (clock e)"
    and "m = rq_marketId request"
  shows "placeBuyOrder cfg e request s =
    (if m \<in> pendingOrders s then
       (Inr (failure k ''Order already in flight for this market''), s)
     else if has_position st m then
       (Inr (failure k ''Already have position in this market''),
        checked e [StateFetch, StateFetch] s)
     else if has_order st m then
       (Inr (failure k ''Already have open order in this market''),
        checked e [StateFetch, StateFetch] s)
     else if total_exposure st + rq_sizeUsd request > maxExposureUsd cfg then
       (Inr (failure k (''Would exceed max exposure ($'' @
                        numToString e (maxExposureUsd cfg) @ '')'')),
        checked e ([StateFetch, StateFetch] @ refetch (stateManager s)) s)
     else if available_balance st < rq_sizeUsd request then
       (Inr (failure k (''Insufficient balance: $'' @ toFixed2 e (available_balance st) @
                        '' < $'' @ numToString e (rq_sizeUsd request))),
        checked e ([StateFetch, StateFetch] @ refetch (stateManager s) @ refetch (stateManager s)) s)
     else
       (Inr (fst (buy_try_catch_finally cfg e request k (created_state e request k s))),
        snd (buy_try_catch_finally cfg e request k (created_state e request k s))))"
proof -
  have c: "checked e [StateFetch] s = checked e ([] @ [StateFetch]) s" by simp
  have cs: "created_state e request k s =
    emit [PendingAdd (rq_marketId request)]
      ((emit [OrderInsert k]
         ((checked e ([StateFetch, StateFetch] @ refetch (stateManager s) @ refetch (stateManager s)) s)
           \<lparr>order_tracking := insert_created request BUY k
               (order_tracking (checked e ([StateFetch, StateFetch] @ refetch (stateManager s) @ refetch (stateManager s)) s))\<rparr>))
        \<lparr>pendingOrders := insert (rq_marketId request) (pendingOrders s)\<rparr>)"
    by (simp add: created_state_def emit_def checked_def Let_def)
  have ot: "order_tracking (checked e evs s) = order_tracking s" for evs
    by (simp add: checked_def)
  have po: "pendingOrders (checked e evs s) = pendingOrders s" for evs
    by (simp add: checked_def)
  show ?thesis
    unfolding placeBuyOrder_def assms(1)[symmetric] Let_def assms(2) assms(4)[symmetric]
    apply (simp only: option.case if_split)
    apply (simp only: via_hasPosition assms(4) split_conv)
    apply (subst c)
    apply (simp only: via_hasOrder via_getTotalExposure via_getAvailableBalance
             split_conv sum.case append_Nil append_Cons append_assoc
             assms(3)[symmetric] assms(4)[symmetric])
    apply (simp add: cs emit_def ot po assms(4) split: prod.splits)
    done
qed

lemma order_id_taken_update:
  "(\<And>r. idempotency_key (f r) = idempotency_key r) \<Longrightarrow>
   order_id_taken k oid (update_order k f tbl) = order_id_taken k oid tbl"
  by (induction tbl) (auto simp: order_id_taken_def update_order_def)

lemma order_id_taken_insert:
  "order_id_taken k oid (insert_created request dir k tbl) = order_id_taken k oid tbl"
  by (simp add: order_id_taken_def insert_created_def list_ex_iff)

lemma find_order_update:
  "(\<And>r. idempotency_key (f r) = idempotency_key r) \<Longrightarrow>
   find_order k (update_order k f tbl) = map_option f (find_order k tbl)"
  by (induction tbl) (auto simp: find_order_def update_order_def)

lemma find_order_insert:
  "find_order k tbl = None \<Longrightarrow>
   \<exists>row. find_order k (insert_created request dir k tbl) = Some row
     \<and> ot_status row = Created \<and> ot_order_id row = None \<and> error_message row = None
     \<and> ot_market_id row = rq_marketId request \<and> ot_side row = dir"
proof -
  have snoc: "find P xs = None \<Longrightarrow> P x \<Longrightarrow> find P (xs @ [x]) = Some x"
    for P and xs :: "OrderTracking list" and x
    by (induction xs) (auto split: if_splits)
  assume "find_order k tbl = None"
  then show ?thesis
    by (simp add: find_order_def insert_created_def snoc)
qed

lemma length_update_order [simp]: "length (update_order k f tbl) = length tbl"
  by (simp add: update_order_def)

lemma buy_live_filled:
  assumes "\<not> dryRun cfg"
    and "createAndPostMarketOrder e = VenueResult r"
    and "str_or (vr_orderID r) (vr_orderId r) = Some oid"
    and "\<not> order_id_taken k oid (order_tracking s)"
  shows "buy_try_catch_finally cfg e request k s =
     (succeeded k oid (Some (str_default (vr_status r) ''unknown'')),
      s\<lparr>order_tracking :=
           update_order k (filled_row oid (str_default (vr_status r) ''unknown''))
             (update_order k (\<lambda>r. r\<lparr>ot_status := Submitted\<rparr>) (order_tracking s)),
        live_trades := live_trades s @
            [\<lparr>lt_id = next_id (map lt_id (live_trades s)),
              lt_market_id = rq_marketId request,
              lt_token_id = Some (rq_tokenId request),
              lt_side = rq_side request,
              lt_entry_price = None,
              lt_size = rq_sizeUsd request,
              lt_size_usd = Some (rq_sizeUsd request),
              lt_status = Open,
              lt_entry_time = Some (clock e),
              lt_order_id = Some oid,
              lt_notes = None\<rparr>],
        pendingOrders := pendingOrders s - {rq_marketId request},
        effects := effects s @
           [OrderUpdate k Submitted, Submit (rq_tokenId request) (rq_sizeUsd request) BUY,
            OrderUpdate k Filled, TradeInsert (rq_marketId request),
            PendingDelete (rq_marketId request)]\<rparr>)"
proof -
  have t: "\<not> order_id_taken k oid
       (update_order k (\<lambda>r. r\<lparr>ot_status := Submitted\<rparr>) (order_tracking s))"
    using assms(4) by (simp add: order_id_taken_update)
  show ?thesis
    using assms(1,2,3) t
    by (simp add: buy_try_catch_finally_def buy_try_def set_submitted_def set_filled_def
          insert_live_trade_def emit_def Let_def filled_row_def [abs_def])
qed

lemma buy_try_effects:
  "\<exists>rest. effects (snd (buy_try cfg e request k s)) = effects s @ rest
     \<and> (if dryRun cfg then \<not> list_ex is_submit rest
         else \<exists>rest'. rest = OrderUpdate k Submitted #
                              Submit (rq_tokenId request) (rq_sizeUsd request) BUY # rest')
     \<and> length (order_tracking (snd (buy_try cfg e request k s))) = length (order_tracking s)
     \<and> pendingOrders (snd (buy_try cfg e request k s)) = pendingOrders s"
  by (auto simp: buy_try_def set_submitted_def set_filled_def set_failed_def
        insert_live_trade_def emit_def Let_def is_submit_def
        split: venue_reply.splits option.splits sum.splits)

lemma buy_try_catch_finally_effects:
  "\<exists>rest. effects (snd (buy_try_catch_finally cfg e request k s)) = effects s @ rest
     \<and> (if dryRun cfg then \<not> list_ex is_submit rest
         else \<exists>rest'. rest = OrderUpdate k Submitted #
                              Submit (rq_tokenId request) (rq_sizeUsd request) BUY # rest')
     \<and> length (order_tracking (snd (buy_try_catch_finally cfg e request k s)))
          = length (order_tracking s)
     \<and> pendingOrders (snd (buy_try_catch_finally cfg e request k s))
          = pendingOrders s - {rq_marketId request}"
proof -
  obtain out s1 where b: "buy_try cfg e request k s = (out, s1)" by force
  from buy_try_effects [of cfg e request k s] b
  obtain rest where r: "effects s1 = effects s @ rest"
     "if dryRun cfg then \<not> list_ex is_submit rest
         else \<exists>rest'. rest = OrderUpdate k Submitted #
                              Submit (rq_tokenId request) (rq_sizeUsd request) BUY # rest'"
     "length (order_tracking s1) = length (order_tracking s)"
     "pendingOrders s1 = pendingOrders s" by auto
  show ?thesis
  proof (cases out)
    case (Inl ex)
    with b r show ?thesis
      by (cases "dryRun cfg")
         (auto simp: buy_try_catch_finally_def set_failed_def emit_def is_submit_def)
  next
    case (Inr res)
    with b r show ?thesis
      by (cases "dryRun cfg")
         (auto simp: buy_try_catch_finally_def emit_def is_submit_def)
  qed
qed

lemma no_write_checked:
  "list_all is_fetch evs \<Longrightarrow> no_write s (checked e evs s)"
  by (simp add: no_write_def checked_def new_effects_def)

lemma is_fetch_refetch [simp]: "list_all is_fetch (refetch sm)"
  by (simp add: refetch_def is_fetch_def)

lemma is_fetch_StateFetch [simp]: "is_fetch StateFetch"
  by (simp add: is_fetch_def)

lemma new_effects_same [simp]: "new_effects s s = []"
  by (simp add: new_effects_def)

lemma new_effects_checked [simp]: "new_effects s (checked e evs s) = evs"
  by (simp add: new_effects_def checked_def)

lemma no_submit_fetches: "list_all is_fetch evs \<Longrightarrow> \<not> list_ex is_submit evs"
  by (auto simp: list_all_iff list_ex_iff is_fetch_def is_submit_def split: event.splits)

subsection \<open>The end-to-end scenario\<close>

lemma scenario_key:
  "key_or_generate (scenario_env rnd vid) scenario_request scenario_request
     = ''order_m1:YES:10:28333333_'' @ rnd"
  by (simp add: key_or_generate_def generateIdempotencyKey_def scenario_env_def
        scenario_request_def side_str_def show_int_def show_nat.simps Let_def)

lemma scenario_key_any:
  "key_or_generate ((scenario_env rnd vid)\<lparr>world := w\<rparr>) scenario_request scenario_request
     = ''order_m1:YES:10:28333333_'' @ rnd"
  by (simp add: key_or_generate_def generateIdempotencyKey_def scenario_env_def
        scenario_request_def side_str_def show_int_def show_nat.simps Let_def)

lemma scenario_state:
  "fresh_state (world (scenario_env rnd vid)) (clock (scenario_env rnd vid)) =
     \<lparr>balance = 100, allowance = 100, positions = [], openOrders = [],
      lastSyncTime = 1700000000000, syncSource = Api\<rparr>"
  by (simp add: fresh_state_def scenario_env_def scenario_world_def Let_def)

lemma scenario_run:
  "placeBuyOrder scenario_cfg (scenario_env ''a1b2c3d4'' ''0xabc'') scenario_request scenario_sys =
    (Inr \<lparr>success = True, orderId = Some ''0xabc'', error = None,
           orderStatus = Some ''matched'',
           res_idempotencyKey = ''order_m1:YES:10:28333333_a1b2c3d4''\<rparr>,
     \<lparr>stateManager = \<lparr>staleThresholdMs = 30000,
         cachedState = Some \<lparr>balance = 100, allowance = 100, positions = [], openOrders = [],
                              lastSyncTime = 1700000000000, syncSource = Api\<rparr>,
         lastError = None\<rparr>,
      order_tracking =
        [\<lparr>ot_id = 1, ot_order_id = Some ''0xabc'', ot_market_id = ''m1'',
          ot_token_id = ''tok1'', ot_side = BUY, ot_price = 0, ot_size = 10,
          ot_order_type = ''MARKET'', ot_status = Filled,
          polymarket_status = Some ''matched'',
          idempotency_key = ''order_m1:YES:10:28333333_a1b2c3d4'', error_message = None\<rparr>],
      live_trades =
        [\<lparr>lt_id = 1, lt_market_id = ''m1'', lt_token_id = Some ''tok1'', lt_side = YES,
          lt_entry_price = None, lt_size = 10, lt_size_usd = Some 10, lt_status = Open,
          lt_entry_time = Some 1700000000000, lt_order_id = Some ''0xabc'',
          lt_notes = None\<rparr>],
      pendingOrders = {},
      effects = [StateFetch, StateFetch, OrderInsert ''order_m1:YES:10:28333333_a1b2c3d4'',
                 PendingAdd ''m1'', OrderUpdate ''order_m1:YES:10:28333333_a1b2c3d4'' Submitted,
                 Submit ''tok1'' 10 BUY,
                 OrderUpdate ''order_m1:YES:10:28333333_a1b2c3d4'' Filled,
                 TradeInsert ''m1'', PendingDelete ''m1'']\<rparr>)"
proof -
  let ?e = "scenario_env ''a1b2c3d4'' ''0xabc''"
  let ?k = "''order_m1:YES:10:28333333_a1b2c3d4''"
  have k: "?k = key_or_generate ?e scenario_request scenario_request"
    by (simp add: scenario_key)
  have miss: "find_order ?k (order_tracking scenario_sys) = None"
    by (simp add: find_order_def scenario_sys_def)
  show ?thesis
    unfolding placeBuyOrder_cases [OF k miss refl refl, of scenario_cfg] scenario_state
    by (simp add: has_position_def has_order_def total_exposure_def available_balance_def
          order_exposure_def scenario_request_def scenario_cfg_def scenario_sys_def
          created_state_def checked_def scenario_state
          with_cache_def newStateManager_def refetch_def Let_def insert_created_def
          update_order_def str_default_def succeeded_def next_id_def num_or_def
          scenario_env_def buy_try_catch_finally_def buy_try_def set_submitted_def
          set_filled_def order_id_taken_def insert_live_trade_def emit_def str_or_def
          scenario_world_def fresh_state_def)
qed

lemma scenario_submitted:
  "list_ex is_submit (new_effects scenario_sys
      (snd (placeBuyOrder scenario_cfg (scenario_env ''a1b2c3d4'' ''0xabc'')
              scenario_request scenario_sys)))"
proof -
  have "effects scenario_sys = []" by (simp add: scenario_sys_def)
  then show ?thesis
    unfolding scenario_run by (simp add: new_effects_def is_submit_def)
qed

subsection \<open>Replay of a stored key\<close>

text \<open>
  When the idempotency key of an order request (the caller's key, or the derived one
  when there is none) already has a record in \<open>order_tracking\<close>, \<open>placeBuyOrder\<close> and
  \<open>placeSellOrder\<close> return what the record holds (success exactly when the stored
  status is \<open>filled\<close> or \<open>live\<close>, the stored order id and the stored error message)
  and leave the whole system as it was: no submission to the venue, no new tracking
  record, no other effect.
\<close>

lemma replay_returns_stored:
  "(find_order (key_or_generate e request request) (order_tracking s) = Some r \<longrightarrow>
      placeBuyOrder cfg e request s =
        (Inr \<lparr>success = (ot_status r = Filled \<or> ot_status r = Live),
              orderId = ot_order_id r, error = error_message r, orderStatus = None,
              res_idempotencyKey = key_or_generate e request request\<rparr>, s))
   \<and> (find_order (key_or_generate e request (request\<lparr>rq_side := NO\<rparr>)) (order_tracking s) = Some r \<longrightarrow>
      placeSellOrder cfg e request s =
        (Inr \<lparr>success = (ot_status r = Filled \<or> ot_status r = Live),
              orderId = ot_order_id r, error = error_message r, orderStatus = None,
              res_idempotencyKey = key_or_generate e request (request\<lparr>rq_side := NO\<rparr>)\<rparr>, s))"
  by (simp add: placeBuyOrder_def placeSellOrder_def stored_result_def Let_def)

lemma replay_returns_stored_example:
  "placeBuyOrder scenario_cfg (scenario_env ''ffffffff'' ''0xother'')
      (scenario_request\<lparr>rq_idempotencyKey := Some ''order_m1:YES:10:28333333_a1b2c3d4''\<rparr>)
      (snd (placeBuyOrder scenario_cfg (scenario_env ''a1b2c3d4'' ''0xabc'')
              scenario_request scenario_sys))
    = (Inr \<lparr>success = True, orderId = Some ''0xabc'', error = None, orderStatus = None,
             res_idempotencyKey = ''order_m1:YES:10:28333333_a1b2c3d4''\<rparr>,
       snd (placeBuyOrder scenario_cfg (scenario_env ''a1b2c3d4'' ''0xabc'')
              scenario_request scenario_sys))
   \<and> placeSellOrder scenario_cfg (scenario_env ''ffffffff'' ''0xother'')
      (scenario_request\<lparr>rq_idempotencyKey := Some ''order_m1:YES:10:28333333_a1b2c3d4''\<rparr>)
      (snd (placeBuyOrder scenario_cfg (scenario_env ''a1b2c3d4'' ''0xabc'')
              scenario_request scenario_sys))
    = (Inr \<lparr>success = True, orderId = Some ''0xabc'', error = None, orderStatus = None,
             res_idempotencyKey = ''order_m1:YES:10:28333333_a1b2c3d4''\<rparr>,
       snd (placeBuyOrder scenario_cfg (scenario_env ''a1b2c3d4'' ''0xabc'')
              scenario_request scenario_sys))"
proof -
  let ?k = "''order_m1:YES:10:28333333_a1b2c3d4''"
  let ?rq = "scenario_request\<lparr>rq_idempotencyKey := Some ?k\<rparr>"
  let ?e = "scenario_env ''ffffffff'' ''0xother''"
  let ?s1 = "snd (placeBuyOrder scenario_cfg (scenario_env ''a1b2c3d4'' ''0xabc'')
              scenario_request scenario_sys)"
  let ?row = "\<lparr>ot_id = 1, ot_order_id = Some ''0xabc'', ot_market_id = ''m1'',
          ot_token_id = ''tok1'', ot_side = BUY, ot_price = 0, ot_size = 10,
          ot_order_type = ''MARKET'', ot_status = Filled,
          polymarket_status = Some ''matched'',
          idempotency_key = ?k, error_message = None\<rparr>"
  have kb: "key_or_generate ?e ?rq ?rq = ?k"
    and ks: "key_or_generate ?e ?rq (?rq\<lparr>rq_side := NO\<rparr>) = ?k"
    by (simp_all add: key_or_generate_def)
  have hit: "find_order ?k (order_tracking ?s1) = Some ?row"
    unfolding scenario_run by (simp add: find_order_def)
  from replay_returns_stored [of ?e ?rq ?s1 ?row scenario_cfg] hit
  show ?thesis unfolding kb ks by simp
qed

subsection \<open>What a first call stores is what it returned\<close>

text \<open>
  A call that gets past its gates writes a record under its key. In live mode it ends
  with that record holding what the call returns: success exactly when the status is
  \<open>filled\<close>, the order id, the error message; a later call with the same key then
  returns the same success, order id and error as the first. In dry-run mode the first
  call forms its placeholder id from the clock twice, once for the record and once for its
  result, so the same holds only when the two readings coincide.
\<close>

lemma buy_try_catch_finally_stored:
  assumes "find_order k (order_tracking c) = Some row0"
    and "ot_status row0 = Created" and "ot_order_id row0 = None" and "error_message row0 = None"
    and "dryRun cfg \<longrightarrow> now_dry_update e = now_dry_return e"
    and "buy_try_catch_finally cfg e request k c = (res, s')"
  shows "\<exists>row. find_order k (order_tracking s') = Some row
           \<and> success res = (ot_status row = Filled \<or> ot_status row = Live)
           \<and> orderId res = ot_order_id row \<and> error res = error_message row"
  using assms
  by (auto simp: buy_try_catch_finally_def buy_try_def set_submitted_def set_filled_def
        set_failed_def insert_live_trade_def emit_def Let_def find_order_update
        succeeded_def failure_def
        split: venue_reply.splits option.splits if_splits)

lemma sell_try_catch_finally_stored:
  assumes "find_order k (order_tracking c) = Some row0"
    and "ot_status row0 = Created" and "ot_order_id row0 = None" and "error_message row0 = None"
    and "dryRun cfg \<longrightarrow> now_dry_update e = now_dry_return e"
    and "sell_try_catch_finally cfg e request k c = (res, s')"
  shows "\<exists>row. find_order k (order_tracking s') = Some row
           \<and> success res = (ot_status row = Filled \<or> ot_status row = Live)
           \<and> orderId res = ot_order_id row \<and> error res = error_message row"
  using assms
  by (auto simp: sell_try_catch_finally_def sell_try_def set_submitted_def set_filled_def
        set_failed_def emit_def Let_def find_order_update
        succeeded_def failure_def
        split: venue_reply.splits option.splits if_splits)

lemma first_buy_then_replay:
  assumes first: "placeBuyOrder cfg e request s = (Inr res, s')"
    and k: "k = key_or_generate e request request"
    and fresh: "find_order k (order_tracking s) = None"
    and wrote: "order_tracking s' \<noteq> order_tracking s"
    and clk: "dryRun cfg \<longrightarrow> now_dry_update e = now_dry_return e"
    and k2: "key_or_generate e2 request2 request2 = k"
  shows "\<exists>res2. placeBuyOrder cfg2 e2 request2 s' = (Inr res2, s')
            \<and> success res2 = success res \<and> orderId res2 = orderId res
            \<and> error res2 = error res"
proof -
  let ?st = "fresh_state (world e) (clock e)"
  let ?m = "rq_marketId request"
  let ?c = "created_state e request k s"
  note cases = placeBuyOrder_cases [OF k fresh refl refl, of cfg]
  have pass: "?m \<notin> pendingOrders s \<and> \<not> has_position ?st ?m \<and> \<not> has_order ?st ?m \<and>
         \<not> total_exposure ?st + rq_sizeUsd request > maxExposureUsd cfg \<and>
         \<not> available_balance ?st < rq_sizeUsd request"
  proof (rule ccontr)
    assume "\<not> ?thesis"
    with cases first have "s' = s \<or> (\<exists>evs. s' = checked e evs s)"
      by (auto split: if_splits)
    with wrote show False by (auto simp: checked_def)
  qed
  with cases first
  have run: "buy_try_catch_finally cfg e request k ?c = (res, s')"
    by (auto simp: prod_eq_iff)
  from find_order_insert [OF fresh, of request BUY]
  obtain row0 where row0: "find_order k (order_tracking ?c) = Some row0"
    "ot_status row0 = Created" "ot_order_id row0 = None" "error_message row0 = None"
    by (auto simp: created_state_def checked_def Let_def)
  from buy_try_catch_finally_stored [OF row0 clk run]
  obtain row where row: "find_order k (order_tracking s') = Some row"
    "success res = (ot_status row = Filled \<or> ot_status row = Live)"
    "orderId res = ot_order_id row" "error res = error_message row" by blast
  have "placeBuyOrder cfg2 e2 request2 s' = (Inr (stored_result k row), s')"
    using row(1) k2 by (simp add: placeBuyOrder_def Let_def)
  with row(2,3,4) show ?thesis by (simp add: stored_result_def)
qed

lemma first_sell_then_replay:
  assumes first: "placeSellOrder cfg e request s = (Inr res, s')"
    and k: "k = key_or_generate e request (request\<lparr>rq_side := NO\<rparr>)"
    and fresh: "find_order k (order_tracking s) = None"
    and wrote: "order_tracking s' \<noteq> order_tracking s"
    and clk: "dryRun cfg \<longrightarrow> now_dry_update e = now_dry_return e"
    and k2: "key_or_generate e2 request2 (request2\<lparr>rq_side := NO\<rparr>) = k"
  shows "\<exists>res2. placeSellOrder cfg2 e2 request2 s' = (Inr res2, s')
            \<and> success res2 = success res \<and> orderId res2 = orderId res
            \<and> error res2 = error res"
proof -
  let ?p = "''sell_'' @ rq_marketId request"
  let ?c = "emit [PendingAdd ?p]
              ((emit [OrderInsert k]
                 (s\<lparr>order_tracking := insert_created request SELL k (order_tracking s)\<rparr>))
               \<lparr>pendingOrders := insert ?p (pendingOrders s)\<rparr>)"
  have notin: "?p \<notin> pendingOrders s"
  proof
    assume "?p \<in> pendingOrders s"
    with first fresh k have "s' = s" by (simp add: placeSellOrder_def Let_def)
    with wrote show False by simp
  qed
  with first fresh k
  have run: "sell_try_catch_finally cfg e request k ?c = (res, s')"
    by (simp add: placeSellOrder_def Let_def emit_def split: prod.splits)
  from find_order_insert [OF fresh, of request SELL]
  obtain row0 where row0: "find_order k (order_tracking ?c) = Some row0"
    "ot_status row0 = Created" "ot_order_id row0 = None" "error_message row0 = None"
    by (auto simp: emit_def)
  from sell_try_catch_finally_stored [OF row0 clk run]
  obtain row where row: "find_order k (order_tracking s') = Some row"
    "success res = (ot_status row = Filled \<or> ot_status row = Live)"
    "orderId res = ot_order_id row" "error res = error_message row" by blast
  have "placeSellOrder cfg2 e2 request2 s' = (Inr (stored_result k row), s')"
    using row(1) k2 by (simp add: placeSellOrder_def Let_def)
  with row(2,3,4) show ?thesis by (simp add: stored_result_def)
qed

subsection \<open>Claim C1: a replay returns what the first call returned\<close>

lemma scenario_dry_run:
  "placeBuyOrder (scenario_cfg\<lparr>dryRun := True\<rparr>) (scenario_env ''a1b2c3d4'' ''0xabc'')
      scenario_request scenario_sys =
    (Inr \<lparr>success = True, orderId = Some ''dry_1700000000002'', error = None,
           orderStatus = None,
           res_idempotencyKey = ''order_m1:YES:10:28333333_a1b2c3d4''\<rparr>,
     \<lparr>stateManager = \<lparr>staleThresholdMs = 30000,
         cachedState = Some \<lparr>balance = 100, allowance = 100, positions = [], openOrders = [],
                              lastSyncTime = 1700000000000, syncSource = Api\<rparr>,
         lastError = None\<rparr>,
      order_tracking =
        [\<lparr>ot_id = 1, ot_order_id = Some ''dry_1700000000001'', ot_market_id = ''m1'',
          ot_token_id = ''tok1'', ot_side = BUY, ot_price = 0, ot_size = 10,
          ot_order_type = ''MARKET'', ot_status = Filled,
          polymarket_status = Some ''DRY_RUN'',
          idempotency_key = ''order_m1:YES:10:28333333_a1b2c3d4'', error_message = None\<rparr>],
      live_trades = [],
      pendingOrders = {},
      effects = [StateFetch, StateFetch, OrderInsert ''order_m1:YES:10:28333333_a1b2c3d4'',
                 PendingAdd ''m1'',
                 OrderUpdate ''order_m1:YES:10:28333333_a1b2c3d4'' Filled,
                 PendingDelete ''m1'']\<rparr>)"
proof -
  let ?e = "scenario_env ''a1b2c3d4'' ''0xabc''"
  let ?k = "''order_m1:YES:10:28333333_a1b2c3d4''"
  have k: "?k = key_or_generate ?e scenario_request scenario_request"
    by (simp add: scenario_key)
  have miss: "find_order ?k (order_tracking scenario_sys) = None"
    by (simp add: find_order_def scenario_sys_def)
  have u: "show_int (now_dry_update ?e) = ''1700000000001''"
    and r: "show_int (now_dry_return ?e) = ''1700000000002''"
    by (simp_all add: scenario_env_def show_int_def show_nat.simps)
  show ?thesis
    unfolding placeBuyOrder_cases [OF k miss refl refl, of "scenario_cfg\<lparr>dryRun := True\<rparr>"] scenario_state
    by (simp add: has_position_def has_order_def total_exposure_def available_balance_def
          order_exposure_def scenario_request_def scenario_cfg_def scenario_sys_def
          created_state_def checked_def scenario_state
          with_cache_def newStateManager_def refetch_def Let_def insert_created_def
          update_order_def str_default_def succeeded_def next_id_def num_or_def
          buy_try_catch_finally_def buy_try_def set_submitted_def
          set_filled_def order_id_taken_def insert_live_trade_def emit_def str_or_def u r)
qed

text \<open>
  C1: a second call with a key that already has a record in \<open>order_tracking\<close> submits
  nothing, writes no new record and returns the same success, order id and error as the
  first call. The code fails the last part in dry-run mode when the clock advances between
  the two readings of the first call: the scenario's request, placed in dry-run mode with
  the clock at 1700000000001 for the record and 1700000000002 for the result, returns
  order id \<open>dry_1700000000002\<close> and stores \<open>dry_1700000000001\<close>; the replay under the
  same key returns the stored \<open>dry_1700000000001\<close>.
\<close>

theorem C1_dry_run_replay_differs:
  "fst (placeBuyOrder (scenario_cfg\<lparr>dryRun := True\<rparr>) (scenario_env ''a1b2c3d4'' ''0xabc'')
          scenario_request scenario_sys)
     = Inr \<lparr>success = True, orderId = Some ''dry_1700000000002'', error = None,
            orderStatus = None,
            res_idempotencyKey = ''order_m1:YES:10:28333333_a1b2c3d4''\<rparr>
   \<and> map ot_order_id (order_tracking
        (snd (placeBuyOrder (scenario_cfg\<lparr>dryRun := True\<rparr>) (scenario_env ''a1b2c3d4'' ''0xabc'')
                scenario_request scenario_sys)))
     = [Some ''dry_1700000000001'']
   \<and> fst (placeBuyOrder (scenario_cfg\<lparr>dryRun := True\<rparr>)
          ((scenario_env ''ffffffff'' ''0xother'')\<lparr>clock := 1700000005000\<rparr>)
          (scenario_request\<lparr>rq_idempotencyKey := Some ''order_m1:YES:10:28333333_a1b2c3d4''\<rparr>)
          (snd (placeBuyOrder (scenario_cfg\<lparr>dryRun := True\<rparr>) (scenario_env ''a1b2c3d4'' ''0xabc'')
                  scenario_request scenario_sys)))
     = Inr \<lparr>success = True, orderId = Some ''dry_1700000000001'', error = None,
            orderStatus = None,
            res_idempotencyKey = ''order_m1:YES:10:28333333_a1b2c3d4''\<rparr>"
  unfolding scenario_dry_run
  by (simp add: placeBuyOrder_def key_or_generate_def find_order_def stored_result_def Let_def)

subsection \<open>Claim C2: derived idempotency keys\<close>

text \<open>
  C2 says that two requests without a caller-supplied key, with the same market, side and
  size and in the same minute, derive the same key and collapse to one action. The derived
  key ends with four random bytes, so the two keys differ as soon as the random bytes do:
  here the same request is placed twice within five seconds, in live mode, the positions
  endpoint not yet showing the first fill. The second call finds no record under its key,
  writes a second tracking record and submits a second order.
\<close>

theorem C2_random_suffix_defeats_dedup:
  "generateIdempotencyKey (scenario_env ''a1b2c3d4'' ''0xabc'') scenario_request
     = ''order_m1:YES:10:28333333_a1b2c3d4''
   \<and> generateIdempotencyKey ((scenario_env ''0f0f0f0f'' ''0xdef'')\<lparr>clock := 1700000005000\<rparr>)
        scenario_request
     = ''order_m1:YES:10:28333333_0f0f0f0f''
   \<and> map idempotency_key (order_tracking (snd (placeBuyOrder scenario_cfg
          ((scenario_env ''0f0f0f0f'' ''0xdef'')\<lparr>clock := 1700000005000\<rparr>) scenario_request
          (snd (placeBuyOrder scenario_cfg (scenario_env ''a1b2c3d4'' ''0xabc'')
                  scenario_request scenario_sys)))))
     = [''order_m1:YES:10:28333333_a1b2c3d4'', ''order_m1:YES:10:28333333_0f0f0f0f'']
   \<and> filter is_submit (effects (snd (placeBuyOrder scenario_cfg
          ((scenario_env ''0f0f0f0f'' ''0xdef'')\<lparr>clock := 1700000005000\<rparr>) scenario_request
          (snd (placeBuyOrder scenario_cfg (scenario_env ''a1b2c3d4'' ''0xabc'')
                  scenario_request scenario_sys)))))
     = [Submit ''tok1'' 10 BUY, Submit ''tok1'' 10 BUY]"
proof -
  let ?e1 = "scenario_env ''a1b2c3d4'' ''0xabc''"
  let ?e2 = "(scenario_env ''0f0f0f0f'' ''0xdef'')\<lparr>clock := 1700000005000\<rparr>"
  let ?k2 = "''order_m1:YES:10:28333333_0f0f0f0f''"
  let ?s1 = "snd (placeBuyOrder scenario_cfg ?e1 scenario_request scenario_sys)"
  have g1: "generateIdempotencyKey ?e1 scenario_request = ''order_m1:YES:10:28333333_a1b2c3d4''"
    by (simp add: generateIdempotencyKey_def scenario_env_def
        scenario_request_def side_str_def show_int_def show_nat.simps Let_def)
  have g2: "generateIdempotencyKey ?e2 scenario_request = ?k2"
    by (simp add: generateIdempotencyKey_def scenario_env_def
        scenario_request_def side_str_def show_int_def show_nat.simps Let_def)
  have k2: "?k2 = key_or_generate ?e2 scenario_request scenario_request"
    using g2 by (simp add: key_or_generate_def scenario_request_def)
  have miss: "find_order ?k2 (order_tracking ?s1) = None"
    unfolding scenario_run by (simp add: find_order_def)
  have st2: "fresh_state (world ?e2) (clock ?e2) =
     \<lparr>balance = 100, allowance = 100, positions = [], openOrders = [],
      lastSyncTime = 1700000005000, syncSource = Api\<rparr>"
    by (simp add: fresh_state_def scenario_env_def scenario_world_def Let_def)
  have run2: "map idempotency_key (order_tracking (snd (placeBuyOrder scenario_cfg ?e2 scenario_request ?s1)))
       = [''order_m1:YES:10:28333333_a1b2c3d4'', ?k2]
     \<and> filter is_submit (effects (snd (placeBuyOrder scenario_cfg ?e2 scenario_request ?s1)))
       = [Submit ''tok1'' 10 BUY, Submit ''tok1'' 10 BUY]"
    unfolding placeBuyOrder_cases [OF k2 miss refl refl, of scenario_cfg] st2
    unfolding scenario_run
    by (simp add: has_position_def has_order_def total_exposure_def available_balance_def
          order_exposure_def scenario_request_def scenario_cfg_def
          created_state_def checked_def st2
          with_cache_def refetch_def Let_def insert_created_def
          update_order_def str_default_def succeeded_def next_id_def num_or_def
          scenario_env_def buy_try_catch_finally_def buy_try_def set_submitted_def
          set_filled_def order_id_taken_def insert_live_trade_def emit_def str_or_def
          is_submit_def)
  from g1 g2 run2 show ?thesis by blast
qed

subsection \<open>Claim C3: order of the pre-flight checks\<close>

text \<open>
  C3: \<open>placeBuyOrder\<close> runs its checks in the order idempotency lookup, in-flight guard,
  existing position, existing open order, exposure limit, balance. A lookup hit returns the
  stored result and changes nothing. Otherwise the first check that fails decides the
  result, whatever the later checks would say: the call returns \<open>success: false\<close> with
  the error of that check, and it has written nothing (no tracking record, no trade, no
  in-flight entry) and submitted nothing: its only effects are reads of the account state,
  and none at all for the in-flight guard. When every check passes, the effects of the call
  are reads of the account state, then the insertion of the tracking record, then the
  in-flight entry, and only then the rest: in live mode the update to \<open>submitted\<close>
  followed by the submission, in dry-run mode no submission at all. The try block that
  holds the submission starts in a state \<open>c\<close> where the record of the request exists with
  status \<open>created\<close> and the market is in the in-flight set.
\<close>

theorem C3_preflight_order:
  assumes "placeBuyOrder cfg e request s = (out, s')"
    and "k = key_or_generate e request request"
    and "st = fresh_state (world e) (clock e)"
    and "m = rq_marketId request"
  shows "(\<forall>r. find_order k (order_tracking s) = Some r \<longrightarrow>
            out = Inr (stored_result k r) \<and> s' = s)
    \<and> (find_order k (order_tracking s) = None \<longrightarrow>
        (m \<in> pendingOrders s \<longrightarrow>
           out = Inr \<lparr>success = False, orderId = None,
                       error = Some ''Order already in flight for this market'',
                       orderStatus = None, res_idempotencyKey = k\<rparr> \<and> s' = s)
      \<and> (m \<notin> pendingOrders s \<and> has_position st m \<longrightarrow>
           out = Inr \<lparr>success = False, orderId = None,
                       error = Some ''Already have position in this market'',
                       orderStatus = None, res_idempotencyKey = k\<rparr> \<and> no_write s s')
      \<and> (m \<notin> pendingOrders s \<and> \<not> has_position st m \<and> has_order st m \<longrightarrow>
           out = Inr \<lparr>success = False, orderId = None,
                       error = Some ''Already have open order in this market'',
                       orderStatus = None, res_idempotencyKey = k\<rparr> \<and> no_write s s')
      \<and> (m \<notin> pendingOrders s \<and> \<not> has_position st m \<and> \<not> has_order st m \<and>
         total_exposure st + rq_sizeUsd request > maxExposureUsd cfg \<longrightarrow>
           out = Inr \<lparr>success = False, orderId = None,
                       error = Some (''Would exceed max exposure ($'' @
                                     numToString e (maxExposureUsd cfg) @ '')''),
                       orderStatus = None, res_idempotencyKey = k\<rparr> \<and> no_write s s')
      \<and> (m \<notin> pendingOrders s \<and> \<not> has_position st m \<and> \<not> has_order st m \<and>
         \<not> total_exposure st + rq_sizeUsd request > maxExposureUsd cfg \<and>
         available_balance st < rq_sizeUsd request \<longrightarrow>
           out = Inr \<lparr>success = False, orderId = None,
                       error = Some (''Insufficient balance: $'' @
                                     toFixed2 e (available_balance st) @ '' < $'' @
                                     numToString e (rq_sizeUsd request)),
                       orderStatus = None, res_idempotencyKey = k\<rparr> \<and> no_write s s')
      \<and> (m \<notin> pendingOrders s \<and> \<not> has_position st m \<and> \<not> has_order st m \<and>
         \<not> total_exposure st + rq_sizeUsd request > maxExposureUsd cfg \<and>
         \<not> available_balance st < rq_sizeUsd request \<longrightarrow>
           (\<exists>res fs rest c. out = Inr res
              \<and> effects s' = effects s @ fs @ [OrderInsert k, PendingAdd m] @ rest
              \<and> list_all is_fetch fs
              \<and> (if dryRun cfg then \<not> list_ex is_submit rest
                  else \<exists>rest'. rest = OrderUpdate k Submitted #
                         Submit (rq_tokenId request) (rq_sizeUsd request) BUY # rest')
              \<and> length (order_tracking s') = Suc (length (order_tracking s))
              \<and> (res, s') = buy_try_catch_finally cfg e request k c
              \<and> effects c = effects s @ fs @ [OrderInsert k, PendingAdd m]
              \<and> pendingOrders c = insert m (pendingOrders s)
              \<and> (\<exists>row. find_order k (order_tracking c) = Some row \<and>
                         ot_status row = Created \<and> ot_side row = BUY \<and>
                         ot_market_id row = m))))"
proof (intro conjI allI impI)
  fix r assume "find_order k (order_tracking s) = Some r"
  then have "placeBuyOrder cfg e request s = (Inr (stored_result k r), s)"
    by (simp add: placeBuyOrder_def assms(2) Let_def)
  with assms(1) show "out = Inr (stored_result k r)" and "s' = s" by simp_all
next
  assume n: "find_order k (order_tracking s) = None"
  note cases = placeBuyOrder_cases [OF assms(2) n assms(3) assms(4), of cfg]
  {
    assume "m \<in> pendingOrders s"
    with cases assms(1)
    show "out = Inr \<lparr>success = False, orderId = None,
                       error = Some ''Order already in flight for this market'',
                       orderStatus = None, res_idempotencyKey = k\<rparr>" and "s' = s"
      by (simp_all add: failure_def)
  next
    assume "m \<notin> pendingOrders s \<and> has_position st m"
    with cases assms(1)
    show "out = Inr \<lparr>success = False, orderId = None,
                       error = Some ''Already have position in this market'',
                       orderStatus = None, res_idempotencyKey = k\<rparr>" and "no_write s s'"
      by (auto simp: failure_def no_write_checked)
  next
    assume "m \<notin> pendingOrders s \<and> \<not> has_position st m \<and> has_order st m"
    with cases assms(1)
    show "out = Inr \<lparr>success = False, orderId = None,
                       error = Some ''Already have open order in this market'',
                       orderStatus = None, res_idempotencyKey = k\<rparr>" and "no_write s s'"
      by (auto simp: failure_def no_write_checked)
  next
    assume "m \<notin> pendingOrders s \<and> \<not> has_position st m \<and> \<not> has_order st m \<and>
         total_exposure st + rq_sizeUsd request > maxExposureUsd cfg"
    with cases assms(1)
    show "out = Inr \<lparr>success = False, orderId = None,
                       error = Some (''Would exceed max exposure ($'' @
                                     numToString e (maxExposureUsd cfg) @ '')''),
                       orderStatus = None, res_idempotencyKey = k\<rparr>" and "no_write s s'"
      by (auto simp: failure_def no_write_checked)
  next
    assume "m \<notin> pendingOrders s \<and> \<not> has_position st m \<and> \<not> has_order st m \<and>
         \<not> total_exposure st + rq_sizeUsd request > maxExposureUsd cfg \<and>
         available_balance st < rq_sizeUsd request"
    with cases assms(1)
    show "out = Inr \<lparr>success = False, orderId = None,
                       error = Some (''Insufficient balance: $'' @
                                     toFixed2 e (available_balance st) @ '' < $'' @
                                     numToString e (rq_sizeUsd request)),
                       orderStatus = None, res_idempotencyKey = k\<rparr>" and "no_write s s'"
      by (auto simp: failure_def no_write_checked)
  next
    assume pass: "m \<notin> pendingOrders s \<and> \<not> has_position st m \<and> \<not> has_order st m \<and>
         \<not> total_exposure st + rq_sizeUsd request > maxExposureUsd cfg \<and>
         \<not> available_balance st < rq_sizeUsd request"
    let ?c = "created_state e request k s"
    let ?fs = "[StateFetch, StateFetch] @ refetch (stateManager s) @ refetch (stateManager s)"
    from cases assms(1) pass
    have o: "out = Inr (fst (buy_try_catch_finally cfg e request k ?c))"
      and s': "s' = snd (buy_try_catch_finally cfg e request k ?c)" by auto
    from buy_try_catch_finally_effects [of cfg e request k ?c] s'
    obtain rest where r: "effects s' = effects ?c @ rest"
      "if dryRun cfg then \<not> list_ex is_submit rest
         else \<exists>rest'. rest = OrderUpdate k Submitted #
                              Submit (rq_tokenId request) (rq_sizeUsd request) BUY # rest'"
      "length (order_tracking s') = length (order_tracking ?c)" by auto
    have ec: "effects ?c = effects s @ ?fs @ [OrderInsert k, PendingAdd m]"
      by (simp add: created_state_def checked_def Let_def assms(4))
    have lc: "length (order_tracking ?c) = Suc (length (order_tracking s))"
      by (simp add: created_state_def checked_def Let_def insert_created_def)
    have ef: "effects s' = effects s @ ?fs @ [OrderInsert k, PendingAdd m] @ rest"
      using r(1) ec by simp
    have fs: "list_all is_fetch ?fs" by simp
    have len: "length (order_tracking s') = Suc (length (order_tracking s))"
      using r(3) lc by simp
    have tr: "(fst (buy_try_catch_finally cfg e request k ?c), s')
                = buy_try_catch_finally cfg e request k ?c"
      using s' by simp
    have pc: "pendingOrders ?c = insert m (pendingOrders s)"
      by (simp add: created_state_def checked_def Let_def assms(4))
    have row: "\<exists>row. find_order k (order_tracking ?c) = Some row \<and>
                         ot_status row = Created \<and> ot_side row = BUY \<and>
                         ot_market_id row = m"
      using find_order_insert [OF n, of request BUY]
      by (auto simp: created_state_def checked_def Let_def assms(4))
    show "\<exists>res fs rest c. out = Inr res
              \<and> effects s' = effects s @ fs @ [OrderInsert k, PendingAdd m] @ rest
              \<and> list_all is_fetch fs
              \<and> (if dryRun cfg then \<not> list_ex is_submit rest
                  else \<exists>rest'. rest = OrderUpdate k Submitted #
                         Submit (rq_tokenId request) (rq_sizeUsd request) BUY # rest')
              \<and> length (order_tracking s') = Suc (length (order_tracking s))
              \<and> (res, s') = buy_try_catch_finally cfg e request k c
              \<and> effects c = effects s @ fs @ [OrderInsert k, PendingAdd m]
              \<and> pendingOrders c = insert m (pendingOrders s)
              \<and> (\<exists>row. find_order k (order_tracking c) = Some row \<and>
                         ot_status row = Created \<and> ot_side row = BUY \<and>
                         ot_market_id row = m)"
      by (intro exI [of _ "fst (buy_try_catch_finally cfg e request k ?c)"]
            exI [of _ ?fs] exI [of _ rest] exI [of _ ?c] conjI o ef fs r(2) len tr ec pc row)
  }
qed

theorem C3_preflight_order_witness:
  "placeBuyOrder scenario_cfg (scenario_env ''a1b2c3d4'' ''0xabc'') scenario_request
       (scenario_sys\<lparr>pendingOrders := {''m1''}\<rparr>)
     = (Inr \<lparr>success = False, orderId = None,
              error = Some ''Order already in flight for this market'',
              orderStatus = None,
              res_idempotencyKey = ''order_m1:YES:10:28333333_a1b2c3d4''\<rparr>,
        scenario_sys\<lparr>pendingOrders := {''m1''}\<rparr>)
   \<and> fst (placeBuyOrder scenario_cfg
          ((scenario_env ''a1b2c3d4'' ''0xabc'')
             \<lparr>world := scenario_world\<lparr>data_api_positions := PositionsJson (Some
                 [\<lparr>conditionId = ''m1'', asset = ''tok1'', rp_outcome = Some ''Yes'',
                   rp_size = Some 12, avgPrice = Some (8/10), rp_currentValue = Some 10,
                   curPrice = Some (85/100), cashPnl = Some 0, title = None\<rparr>])\<rparr>\<rparr>)
          scenario_request scenario_sys)
     = Inr \<lparr>success = False, orderId = None,
             error = Some ''Already have position in this market'',
             orderStatus = None,
             res_idempotencyKey = ''order_m1:YES:10:28333333_a1b2c3d4''\<rparr>
   \<and> fst (placeBuyOrder (scenario_cfg\<lparr>maxExposureUsd := 5\<rparr>)
          (scenario_env ''a1b2c3d4'' ''0xabc'') scenario_request scenario_sys)
     = Inr \<lparr>success = False, orderId = None,
             error = Some ''Would exceed max exposure ($5)'',
             orderStatus = None,
             res_idempotencyKey = ''order_m1:YES:10:28333333_a1b2c3d4''\<rparr>
   \<and> fst (placeBuyOrder scenario_cfg
          ((scenario_env ''a1b2c3d4'' ''0xabc'')
             \<lparr>world := scenario_world\<lparr>getBalanceAllowance := Value 5000000\<rparr>\<rparr>)
          scenario_request scenario_sys)
     = Inr \<lparr>success = False, orderId = None,
             error = Some ''Insufficient balance: $5.00 < $10'',
             orderStatus = None,
             res_idempotencyKey = ''order_m1:YES:10:28333333_a1b2c3d4''\<rparr>
   \<and> order_tracking (snd (placeBuyOrder scenario_cfg
          ((scenario_env ''a1b2c3d4'' ''0xabc'')
             \<lparr>world := scenario_world\<lparr>getBalanceAllowance := Value 5000000\<rparr>\<rparr>)
          scenario_request scenario_sys)) = []
   \<and> (\<exists>fs rest'. effects (snd (placeBuyOrder scenario_cfg (scenario_env ''a1b2c3d4'' ''0xabc'')
                            scenario_request scenario_sys))
         = fs @ [OrderInsert ''order_m1:YES:10:28333333_a1b2c3d4'', PendingAdd ''m1''] @
           OrderUpdate ''order_m1:YES:10:28333333_a1b2c3d4'' Submitted #
           Submit ''tok1'' 10 BUY # rest'
         \<and> list_all is_fetch fs)"
proof -
  let ?k = "''order_m1:YES:10:28333333_a1b2c3d4''"
  let ?e = "scenario_env ''a1b2c3d4'' ''0xabc''"
  let ?rq = scenario_request
  have miss: "find_order ?k (order_tracking scenario_sys) = None"
    by (simp add: find_order_def scenario_sys_def)
  have m: "rq_marketId ?rq = ''m1''" and sz: "rq_sizeUsd ?rq = 10" and tk: "rq_tokenId ?rq = ''tok1''"
    by (simp_all add: scenario_request_def)
  have nopend: "pendingOrders scenario_sys = {}" and noeff: "effects scenario_sys = []"
    and noord: "order_tracking scenario_sys = []"
    by (simp_all add: scenario_sys_def)
  \<comment> \<open>the in-flight guard\<close>
  let ?sA = "scenario_sys\<lparr>pendingOrders := {''m1''}\<rparr>"
  let ?RA = "placeBuyOrder scenario_cfg ?e ?rq ?sA"
  have A: "?RA = (Inr \<lparr>success = False, orderId = None,
              error = Some ''Order already in flight for this market'',
              orderStatus = None, res_idempotencyKey = ?k\<rparr>, ?sA)"
  proof -
    have r: "?RA = (fst ?RA, snd ?RA)" by simp
    have "find_order (key_or_generate ?e ?rq ?rq) (order_tracking ?sA) = None"
      using miss by (simp add: scenario_key)
    moreover have "rq_marketId ?rq \<in> pendingOrders ?sA" by (simp add: m)
    ultimately have "fst ?RA = Inr \<lparr>success = False, orderId = None,
              error = Some ''Order already in flight for this market'',
              orderStatus = None, res_idempotencyKey = key_or_generate ?e ?rq ?rq\<rparr>
              \<and> snd ?RA = ?sA"
      using C3_preflight_order [OF r refl refl refl] by blast
    then show ?thesis by (simp add: scenario_key prod_eq_iff)
  qed
  \<comment> \<open>an existing position\<close>
  let ?wB = "scenario_world\<lparr>data_api_positions := PositionsJson (Some
                 [\<lparr>conditionId = ''m1'', asset = ''tok1'', rp_outcome = Some ''Yes'',
                   rp_size = Some 12, avgPrice = Some (8/10), rp_currentValue = Some 10,
                   curPrice = Some (85/100), cashPnl = Some 0, title = None\<rparr>])\<rparr>"
  let ?eB = "?e\<lparr>world := ?wB\<rparr>"
  let ?RB = "placeBuyOrder scenario_cfg ?eB ?rq scenario_sys"
  have B: "fst ?RB = Inr \<lparr>success = False, orderId = None,
             error = Some ''Already have position in this market'',
             orderStatus = None, res_idempotencyKey = ?k\<rparr>"
  proof -
    have r: "?RB = (fst ?RB, snd ?RB)" by simp
    have "find_order (key_or_generate ?eB ?rq ?rq) (order_tracking scenario_sys) = None"
      using miss by (simp add: scenario_key_any)
    moreover have "rq_marketId ?rq \<notin> pendingOrders scenario_sys" by (simp add: nopend)
    moreover have "has_position (fresh_state (world ?eB) (clock ?eB)) (rq_marketId ?rq)"
      by (simp add: has_position_def fresh_state_def scenario_world_def m Let_def
            position_of_raw_def)
    ultimately have "fst ?RB = Inr \<lparr>success = False, orderId = None,
             error = Some ''Already have position in this market'',
             orderStatus = None, res_idempotencyKey = key_or_generate ?eB ?rq ?rq\<rparr>"
      using C3_preflight_order [OF r refl refl refl] by blast
    then show ?thesis by (simp add: scenario_key_any)
  qed
  \<comment> \<open>the exposure limit\<close>
  let ?cC = "scenario_cfg\<lparr>maxExposureUsd := 5\<rparr>"
  let ?RC = "placeBuyOrder ?cC ?e ?rq scenario_sys"
  have st: "fresh_state (world ?e) (clock ?e) =
     \<lparr>balance = 100, allowance = 100, positions = [], openOrders = [],
      lastSyncTime = 1700000000000, syncSource = Api\<rparr>" by (rule scenario_state)
  have C: "fst ?RC = Inr \<lparr>success = False, orderId = None,
             error = Some ''Would exceed max exposure ($5)'',
             orderStatus = None, res_idempotencyKey = ?k\<rparr>"
  proof -
    have r: "?RC = (fst ?RC, snd ?RC)" by simp
    have "find_order (key_or_generate ?e ?rq ?rq) (order_tracking scenario_sys) = None"
      using miss by (simp add: scenario_key)
    moreover have "rq_marketId ?rq \<notin> pendingOrders scenario_sys" by (simp add: nopend)
    moreover have "\<not> has_position (fresh_state (world ?e) (clock ?e)) (rq_marketId ?rq)"
      "\<not> has_order (fresh_state (world ?e) (clock ?e)) (rq_marketId ?rq)"
      "total_exposure (fresh_state (world ?e) (clock ?e)) + rq_sizeUsd ?rq > maxExposureUsd ?cC"
      unfolding st
      by (simp_all add: has_position_def has_order_def total_exposure_def order_exposure_def
            sz scenario_cfg_def)
    ultimately have "fst ?RC = Inr \<lparr>success = False, orderId = None,
             error = Some (''Would exceed max exposure ($'' @
                           numToString ?e (maxExposureUsd ?cC) @ '')''),
             orderStatus = None, res_idempotencyKey = key_or_generate ?e ?rq ?rq\<rparr>"
      using C3_preflight_order [OF r refl refl refl] by blast
    moreover have "numToString ?e (maxExposureUsd ?cC) = ''5''"
      by (simp add: scenario_env_def scenario_cfg_def)
    ultimately show ?thesis by (simp add: scenario_key)
  qed
  \<comment> \<open>the balance\<close>
  let ?eD = "?e\<lparr>world := scenario_world\<lparr>getBalanceAllowance := Value 5000000\<rparr>\<rparr>"
  let ?RD = "placeBuyOrder scenario_cfg ?eD ?rq scenario_sys"
  have stD: "fresh_state (world ?eD) (clock ?eD) =
     \<lparr>balance = 5, allowance = 5, positions = [], openOrders = [],
      lastSyncTime = 1700000000000, syncSource = Api\<rparr>"
    by (simp add: fresh_state_def scenario_env_def scenario_world_def Let_def)
  have D: "fst ?RD = Inr \<lparr>success = False, orderId = None,
             error = Some ''Insufficient balance: $5.00 < $10'',
             orderStatus = None, res_idempotencyKey = ?k\<rparr>
         \<and> order_tracking (snd ?RD) = []"
  proof -
    have r: "?RD = (fst ?RD, snd ?RD)" by simp
    have "find_order (key_or_generate ?eD ?rq ?rq) (order_tracking scenario_sys) = None"
      using miss by (simp add: scenario_key_any)
    moreover have "rq_marketId ?rq \<notin> pendingOrders scenario_sys" by (simp add: nopend)
    moreover have "\<not> has_position (fresh_state (world ?eD) (clock ?eD)) (rq_marketId ?rq)"
      "\<not> has_order (fresh_state (world ?eD) (clock ?eD)) (rq_marketId ?rq)"
      "\<not> total_exposure (fresh_state (world ?eD) (clock ?eD)) + rq_sizeUsd ?rq
           > maxExposureUsd scenario_cfg"
      "available_balance (fresh_state (world ?eD) (clock ?eD)) < rq_sizeUsd ?rq"
      unfolding stD
      by (simp_all add: has_position_def has_order_def total_exposure_def order_exposure_def
            available_balance_def sz scenario_cfg_def)
    ultimately have "fst ?RD = Inr \<lparr>success = False, orderId = None,
             error = Some (''Insufficient balance: $'' @
                     toFixed2 ?eD (available_balance (fresh_state (world ?eD) (clock ?eD))) @
                     '' < $'' @ numToString ?eD (rq_sizeUsd ?rq)),
             orderStatus = None, res_idempotencyKey = key_or_generate ?eD ?rq ?rq\<rparr>
         \<and> no_write scenario_sys (snd ?RD)"
      using C3_preflight_order [OF r refl refl refl] by blast
    moreover have "toFixed2 ?eD (available_balance (fresh_state (world ?eD) (clock ?eD))) = ''5.00''"
      unfolding stD by (simp add: scenario_env_def available_balance_def order_exposure_def)
    moreover have "numToString ?eD (rq_sizeUsd ?rq) = ''10''"
      by (simp add: scenario_env_def sz)
    ultimately show ?thesis
      by (simp add: scenario_key_any no_write_def noord)
  qed
  \<comment> \<open>every check passes\<close>
  let ?RE = "placeBuyOrder scenario_cfg ?e ?rq scenario_sys"
  have E: "\<exists>fs rest'. effects (snd ?RE)
         = fs @ [OrderInsert ?k, PendingAdd ''m1''] @
           OrderUpdate ?k Submitted # Submit ''tok1'' 10 BUY # rest'
         \<and> list_all is_fetch fs"
  proof -
    have r: "?RE = (fst ?RE, snd ?RE)" by simp
    have "find_order (key_or_generate ?e ?rq ?rq) (order_tracking scenario_sys) = None"
      using miss by (simp add: scenario_key)
    moreover have "rq_marketId ?rq \<notin> pendingOrders scenario_sys" by (simp add: nopend)
    moreover have "\<not> has_position (fresh_state (world ?e) (clock ?e)) (rq_marketId ?rq)"
      "\<not> has_order (fresh_state (world ?e) (clock ?e)) (rq_marketId ?rq)"
      "\<not> total_exposure (fresh_state (world ?e) (clock ?e)) + rq_sizeUsd ?rq
           > maxExposureUsd scenario_cfg"
      "\<not> available_balance (fresh_state (world ?e) (clock ?e)) < rq_sizeUsd ?rq"
      unfolding st
      by (simp_all add: has_position_def has_order_def total_exposure_def order_exposure_def
            available_balance_def sz scenario_cfg_def)
    moreover have "\<not> dryRun scenario_cfg" by (simp add: scenario_cfg_def)
    ultimately obtain res fs rest where
      "effects (snd ?RE) = effects scenario_sys @ fs @
          [OrderInsert (key_or_generate ?e ?rq ?rq), PendingAdd (rq_marketId ?rq)] @ rest"
      "list_all is_fetch fs"
      "\<exists>rest'. rest = OrderUpdate (key_or_generate ?e ?rq ?rq) Submitted #
                         Submit (rq_tokenId ?rq) (rq_sizeUsd ?rq) BUY # rest'"
      using C3_preflight_order [OF r refl refl refl] by (auto split: if_splits)
    then show ?thesis unfolding scenario_key m sz tk noeff by auto
  qed
  from A B C D E show ?thesis by blast
qed

subsection \<open>Claim C8: a successful buy\<close>

text \<open>
  C8, as stated, says that the trade record created for a successful buy has status
  \<open>pending\<close>. In the end-to-end scenario the submission succeeds, the tracking record
  becomes \<open>filled\<close>, and the one trade record written by the executor has status \<open>open\<close>.
\<close>

theorem C8_trade_status_counterexample:
  "map lt_status (live_trades (snd (placeBuyOrder scenario_cfg
        (scenario_env ''a1b2c3d4'' ''0xabc'') scenario_request scenario_sys))) = [Open]
   \<and> map ot_status (order_tracking (snd (placeBuyOrder scenario_cfg
        (scenario_env ''a1b2c3d4'' ''0xabc'') scenario_request scenario_sys))) = [Filled]
   \<and> filter is_submit (effects (snd (placeBuyOrder scenario_cfg
        (scenario_env ''a1b2c3d4'' ''0xabc'') scenario_request scenario_sys)))
       = [Submit ''tok1'' 10 BUY]"
  by (simp add: scenario_run is_submit_def)

text \<open>
  C8 (amended): for every call of \<open>placeBuyOrder\<close> that submits an order to the venue and
  gets an order id back (an id that no other tracking record holds, as the UNIQUE column
  requires), the call returns success with that id, the tracking record of the request has
  status \<open>filled\<close> and holds the id, and exactly one trade record is added to
  \<open>live_trades\<close>, for the market, side and size of the request, holding the id, with
  status \<open>open\<close>.
\<close>

theorem C8_filled_and_open_trade:
  assumes run: "placeBuyOrder cfg e request s = (out, s')"
    and sub: "list_ex is_submit (new_effects s s')"
    and ven: "createAndPostMarketOrder e = VenueResult r"
    and oid: "str_or (vr_orderID r) (vr_orderId r) = Some oid"
    and k: "k = key_or_generate e request request"
    and free: "\<not> order_id_taken k oid (order_tracking s)"
  shows "out = Inr \<lparr>success = True, orderId = Some oid, error = None,
                     orderStatus = Some (str_default (vr_status r) ''unknown''),
                     res_idempotencyKey = k\<rparr>
    \<and> (\<exists>row. find_order k (order_tracking s') = Some row \<and> ot_status row = Filled \<and>
              ot_order_id row = Some oid \<and> ot_side row = BUY \<and>
              ot_market_id row = rq_marketId request)
    \<and> (\<exists>t. live_trades s' = live_trades s @ [t] \<and> lt_status t = Open \<and>
            lt_market_id t = rq_marketId request \<and> lt_order_id t = Some oid \<and>
            lt_side t = rq_side request \<and> lt_size_usd t = Some (rq_sizeUsd request))"
proof -
  let ?st = "fresh_state (world e) (clock e)"
  let ?m = "rq_marketId request"
  let ?c = "created_state e request k s"
  let ?fs = "[StateFetch, StateFetch] @ refetch (stateManager s) @ refetch (stateManager s)"
  have miss: "find_order k (order_tracking s) = None"
  proof (cases "find_order k (order_tracking s)")
    case None then show ?thesis .
  next
    case (Some row)
    then have "placeBuyOrder cfg e request s = (Inr (stored_result k row), s)"
      by (simp add: placeBuyOrder_def k Let_def)
    with run have "s' = s" by simp
    with sub show ?thesis by simp
  qed
  note cases = placeBuyOrder_cases [OF k miss refl refl, of cfg]
  have pass: "?m \<notin> pendingOrders s \<and> \<not> has_position ?st ?m \<and> \<not> has_order ?st ?m \<and>
         \<not> total_exposure ?st + rq_sizeUsd request > maxExposureUsd cfg \<and>
         \<not> available_balance ?st < rq_sizeUsd request"
  proof (rule ccontr)
    assume "\<not> ?thesis"
    with cases run have "s' = s \<or> (\<exists>evs. s' = checked e evs s \<and> list_all is_fetch evs)"
      by (auto split: if_splits)
    with sub show False by (auto dest: no_submit_fetches)
  qed
  with cases run
  have o: "out = Inr (fst (buy_try_catch_finally cfg e request k ?c))"
    and s': "s' = snd (buy_try_catch_finally cfg e request k ?c)" by auto
  have ec: "effects ?c = effects s @ ?fs @ [OrderInsert k, PendingAdd ?m]"
    by (simp add: created_state_def checked_def Let_def)
  have live: "\<not> dryRun cfg"
  proof
    assume d: "dryRun cfg"
    from buy_try_catch_finally_effects [of cfg e request k ?c] s' d
    obtain rest where r: "effects s' = effects ?c @ rest" "\<not> list_ex is_submit rest" by auto
    have "new_effects s s' = ?fs @ [OrderInsert k, PendingAdd ?m] @ rest"
      using r(1) ec by (simp add: new_effects_def)
    with sub r(2) show False
      by (auto simp: is_submit_def refetch_def split: if_splits)
  qed
  have free': "\<not> order_id_taken k oid (order_tracking ?c)"
    using free by (simp add: created_state_def checked_def Let_def order_id_taken_insert)
  note fin = buy_live_filled [OF live ven oid free', of request]
  from find_order_insert [OF miss, of request BUY]
  obtain row0 where row0: "find_order k (insert_created request BUY k (order_tracking s)) = Some row0"
    "ot_market_id row0 = rq_marketId request" "ot_side row0 = BUY" by blast
  have otc: "order_tracking ?c = insert_created request BUY k (order_tracking s)"
    by (simp add: created_state_def checked_def Let_def)
  have ltc: "live_trades ?c = live_trades s"
    by (simp add: created_state_def checked_def Let_def)
  let ?row = "filled_row oid (str_default (vr_status r) ''unknown'') (row0\<lparr>ot_status := Submitted\<rparr>)"
  have "find_order k (order_tracking s') = Some ?row"
    using s' fin otc row0(1)
    by (simp add: find_order_update filled_row_def)
  moreover have "ot_status ?row = Filled \<and> ot_order_id ?row = Some oid \<and> ot_side ?row = BUY \<and>
              ot_market_id ?row = rq_marketId request"
    using row0(2,3) by (simp add: filled_row_def)
  ultimately have A: "\<exists>row. find_order k (order_tracking s') = Some row \<and> ot_status row = Filled \<and>
              ot_order_id row = Some oid \<and> ot_side row = BUY \<and>
              ot_market_id row = rq_marketId request" by blast
  have B: "\<exists>t. live_trades s' = live_trades s @ [t] \<and> lt_status t = Open \<and>
            lt_market_id t = rq_marketId request \<and> lt_order_id t = Some oid \<and>
            lt_side t = rq_side request \<and> lt_size_usd t = Some (rq_sizeUsd request)"
    using s' fin ltc by simp
  have C: "out = Inr \<lparr>success = True, orderId = Some oid, error = None,
                     orderStatus = Some (str_default (vr_status r) ''unknown''),
                     res_idempotencyKey = k\<rparr>"
    using o fin by (simp add: succeeded_def)
  from A B C show ?thesis by blast
qed

theorem C8_filled_and_open_trade_witness:
  "(\<exists>row. find_order ''order_m1:YES:10:28333333_a1b2c3d4''
             (order_tracking (snd (placeBuyOrder scenario_cfg
                (scenario_env ''a1b2c3d4'' ''0xabc'') scenario_request scenario_sys))) = Some row
          \<and> ot_status row = Filled \<and> ot_order_id row = Some ''0xabc'')
   \<and> (\<exists>t. live_trades (snd (placeBuyOrder scenario_cfg
                (scenario_env ''a1b2c3d4'' ''0xabc'') scenario_request scenario_sys)) = [t]
          \<and> lt_status t = Open \<and> lt_market_id t = ''m1'' \<and> lt_order_id t = Some ''0xabc'')"
proof -
  let ?e = "scenario_env ''a1b2c3d4'' ''0xabc''"
  let ?R = "placeBuyOrder scenario_cfg ?e scenario_request scenario_sys"
  let ?r = "\<lparr>vr_orderID = Some ''0xabc'', vr_orderId = None,
                     vr_status = Some ''matched'', vr_errorMsg = None\<rparr>"
  have run: "?R = (fst ?R, snd ?R)" by simp
  have ven: "createAndPostMarketOrder ?e = VenueResult ?r" by (simp add: scenario_env_def)
  have oid: "str_or (vr_orderID ?r) (vr_orderId ?r) = Some ''0xabc''" by (simp add: str_or_def)
  have k: "''order_m1:YES:10:28333333_a1b2c3d4'' = key_or_generate ?e scenario_request scenario_request"
    by (simp add: scenario_key)
  have free: "\<not> order_id_taken ''order_m1:YES:10:28333333_a1b2c3d4'' ''0xabc''
                 (order_tracking scenario_sys)"
    by (simp add: order_id_taken_def scenario_sys_def)
  have lt: "live_trades scenario_sys = []" by (simp add: scenario_sys_def)
  have m: "rq_marketId scenario_request = ''m1''" by (simp add: scenario_request_def)
  from C8_filled_and_open_trade [OF run scenario_submitted ven oid k free]
  show ?thesis unfolding lt m append_Nil by blast
qed

subsection \<open>Claim C9: cancel all open orders\<close>

text \<open>
  C9: when the venue's cancel-all call succeeds, \<open>cancelAllOrders\<close> returns success
  whatever the upstream services answer to the state refresh that follows: the refresh
  cannot reject, every fetch of it catching its own errors.
\<close>

theorem C9_cancel_all_ignores_refresh:
  assumes "cancelAll e = None"
  shows "fst (cancelAllOrders cfg e s) = \<lparr>c_success = True, c_cancelled = 0, c_error = None\<rparr>"
  using assms
  by (simp add: cancelAllOrders_def via_stateManager_def getState_forced Let_def)

theorem C9_cancel_all_ignores_refresh_witness:
  "fst (cancelAllOrders scenario_cfg
          ((scenario_env ''a1b2c3d4'' ''0xabc'')
             \<lparr>world := \<lparr>getBalanceAllowance = Throws, eth_call_balanceOf = Throws,
                         getOpenOrders = Throws, data_api_positions = PositionsThrows\<rparr>\<rparr>)
          scenario_sys)
     = \<lparr>c_success = True, c_cancelled = 0, c_error = None\<rparr>"
proof -
  let ?e = "(scenario_env ''a1b2c3d4'' ''0xabc'')
             \<lparr>world := \<lparr>getBalanceAllowance = Throws, eth_call_balanceOf = Throws,
                         getOpenOrders = Throws, data_api_positions = PositionsThrows\<rparr>\<rparr>"
  have "cancelAll ?e = None" by (simp add: scenario_env_def)
  from C9_cancel_all_ignores_refresh [OF this] show ?thesis .
qed

end
